theory Spec2Isabelle
  imports Complex_Main
begin

section \<open>Outcomes of calls that may throw\<close>

text \<open>
  A JavaScript call either returns a value or throws; the thrown error is kept as the
  string that \<open>String(error)\<close> gives. Logging to the console is not modelled.
\<close>

datatype 'a outcome = Throws string | Returns 'a

section \<open>The messaging adapter (supabase-functions-send-whatsapp/index.ts)\<close>

subsection \<open>JavaScript values that a JSON body can hold\<close>

text \<open>
  \<open>JUndefined\<close> is what destructuring gives for a missing key. Numbers are the
  integers, with the decimal numeral as their \<open>String\<close> (so for JavaScript
  integers below 10^21 in magnitude); strings are lists of 8-bit code units.
\<close>

datatype jsval =
    JUndefined
  | JNull
  | JBool bool
  | JNum int
  | JStr string
  | JArr "jsval list"
  | JObj "(string \<times> jsval) list"

fun Boolean :: "jsval \<Rightarrow> bool" where
  "Boolean JUndefined = False"
| "Boolean JNull = False"
| "Boolean (JBool b) = b"
| "Boolean (JNum n) = (n \<noteq> 0)"
| "Boolean (JStr s) = (s \<noteq> [])"
| "Boolean (JArr xs) = True"
| "Boolean (JObj kvs) = True"

fun isArray :: "jsval \<Rightarrow> bool" where
  "isArray (JArr xs) = True"
| "isArray v = False"

fun elements :: "jsval \<Rightarrow> jsval list" where
  "elements (JArr xs) = xs"
| "elements v = []"

text \<open>\<open>a || b\<close>: the left operand when it is truthy, the right one otherwise.\<close>

definition js_or :: "jsval \<Rightarrow> jsval \<Rightarrow> jsval" where
  "js_or a b = (if Boolean a then a else b)"

fun digits :: "nat \<Rightarrow> string" where
  "digits n =
     (if n < 10 then [''0123456789'' ! n]
      else digits (n div 10) @ [''0123456789'' ! (n mod 10)])"

definition show_int :: "int \<Rightarrow> string" where
  "show_int i = (if i < 0 then ''-'' @ digits (nat (- i)) else digits (nat i))"

fun join_strings :: "string \<Rightarrow> string list \<Rightarrow> string" where
  "join_strings sep [] = []"
| "join_strings sep [s] = s"
| "join_strings sep (s # t # ts) = s @ sep @ join_strings sep (t # ts)"

text \<open>
  \<open>String(v)\<close>. An array is rendered as \<open>Array.prototype.join\<close> does with a comma:
  \<open>undefined\<close> and \<open>null\<close> elements give the empty string.
\<close>

fun js_String :: "jsval \<Rightarrow> string" where
  "js_String JUndefined = ''undefined''"
| "js_String JNull = ''null''"
| "js_String (JBool b) = (if b then ''true'' else ''false'')"
| "js_String (JNum n) = show_int n"
| "js_String (JStr s) = s"
| "js_String (JArr xs) =
     join_strings '',''
       (map (\<lambda>x. case x of JUndefined \<Rightarrow> [] | JNull \<Rightarrow> [] | _ \<Rightarrow> js_String x) xs)"
| "js_String (JObj kvs) = ''[object Object]''"

text \<open>\<open>xs.join(sep)\<close> on the elements of an array.\<close>

definition js_join :: "jsval list \<Rightarrow> string \<Rightarrow> string" where
  "js_join xs sep =
     join_strings sep
       (map (\<lambda>x. case x of JUndefined \<Rightarrow> [] | JNull \<Rightarrow> [] | _ \<Rightarrow> js_String x) xs)"

text \<open>
  \<open>String.prototype.trim\<close>: white space and line terminators are removed at both ends.
  Of these, the code units below 256 are TAB, LF, VT, FF, CR, SPACE and NBSP.
\<close>

definition is_js_space :: "char \<Rightarrow> bool" where
  "is_js_space c = (c \<in> set [CHR 0x09, CHR 0x0A, CHR 0x0B, CHR 0x0C, CHR 0x0D, CHR 0x20, CHR 0xA0])"

definition trim :: "string \<Rightarrow> string" where
  "trim s = rev (dropWhile is_js_space (rev (dropWhile is_js_space s)))"

text \<open>
  Lines 22-24:
  \<^verbatim>\<open>Array.isArray(target) ? target.filter(Boolean).join(",") : String(target || "").trim()\<close>
\<close>

definition formattedTarget :: "jsval \<Rightarrow> string" where
  "formattedTarget target =
     (if isArray target then js_join (filter Boolean (elements target)) '',''
      else trim (js_String (js_or target (JStr []))))"

subsection \<open>Requests, the gateway and the handler\<close>

record request =
  req_method :: string
  req_json :: "jsval outcome"

record fetch_request =
  url :: string
  fetch_method :: string
  fetch_headers :: "(string \<times> string) list"
  form :: "(string \<times> string) list"

record fetch_response =
  ok :: bool
  resp_status :: int
  resp_text :: "string outcome"

text \<open>
  What the handler reads from its surroundings: the process configuration, the gateway
  behind \<open>fetch\<close> (which may throw instead of answering) and \<open>JSON.parse\<close>, which
  gives \<open>None\<close> where it throws.
\<close>

record env =
  FONNTE_TOKEN :: "string option"
  fetch :: "fetch_request \<Rightarrow> fetch_response outcome"
  JSON_parse :: "string \<Rightarrow> jsval option"

datatype body = Text string | Json jsval

record http_response =
  http_status :: nat
  http_headers :: "(string \<times> string) list"
  http_body :: body

text \<open>
  \<open>const { target, message } = await req.json()\<close>: destructuring \<open>null\<close> throws a
  TypeError; a key that is absent, and any key of a value that is not an object, gives
  \<open>undefined\<close>.
\<close>

fun property :: "jsval \<Rightarrow> string \<Rightarrow> jsval" where
  "property (JObj kvs) k = (case map_of kvs k of None \<Rightarrow> JUndefined | Some v \<Rightarrow> v)"
| "property v k = JUndefined"

fun destructure :: "jsval \<Rightarrow> (jsval \<times> jsval) outcome" where
  "destructure JNull = Throws ''TypeError: Cannot destructure property 'target' of null''"
| "destructure JUndefined = Throws ''TypeError: Cannot destructure property 'target' of undefined''"
| "destructure v = Returns (property v ''target'', property v ''message'')"

text \<open>
  The request of lines 28-38. The body is the \<open>URLSearchParams\<close> built from the two
  fields, each converted to a string; its percent-encoding on the wire is not modelled.
\<close>

definition send_request :: "string option \<Rightarrow> jsval \<Rightarrow> jsval \<Rightarrow> fetch_request" where
  "send_request token target message =
     \<lparr> url = ''https://api.fonnte.com/send'',
       fetch_method = ''POST'',
       fetch_headers =
         [(''Authorization'', (case token of None \<Rightarrow> [] | Some t \<Rightarrow> t)),
          (''Content-Type'', ''application/x-www-form-urlencoded'')],
       form = [(''target'', formattedTarget target), (''message'', js_String message)] \<rparr>"

definition json_headers :: "(string \<times> string) list" where
  "json_headers =
     [(''Access-Control-Allow-Origin'', ''*''), (''Content-Type'', ''application/json'')]"

text \<open>The \<open>try\<close> block, lines 17-71.\<close>

definition serve_try :: "env \<Rightarrow> request \<Rightarrow> http_response outcome" where
  "serve_try e req =
     (case req_json req of
        Throws err \<Rightarrow> Throws err
      | Returns b \<Rightarrow>
          (case destructure b of
             Throws err \<Rightarrow> Throws err
           | Returns (target, message) \<Rightarrow>
               (case fetch e (send_request (FONNTE_TOKEN e) target message) of
                  Throws err \<Rightarrow> Throws err
                | Returns response \<Rightarrow>
                    (case resp_text response of
                       Throws err \<Rightarrow> Throws err
                     | Returns raw \<Rightarrow>
                         (let parsed =
                                (case JSON_parse e raw of
                                   Some v \<Rightarrow> v
                                 | None \<Rightarrow> JObj [(''raw'', JStr raw)])
                          in Returns
                               \<lparr> http_status = 200,
                                 http_headers = json_headers,
                                 http_body =
                                   Json (JObj [(''success'', JBool (ok response)),
                                               (''status'', JNum (resp_status response)),
                                               (''data'', parsed)]) \<rparr>)))))"

text \<open>The handler: the preflight answer, the \<open>try\<close> block, and the \<open>catch\<close> of lines 72-87.\<close>

definition serve :: "env \<Rightarrow> request \<Rightarrow> http_response" where
  "serve e req =
     (if req_method req = ''OPTIONS'' then
        \<lparr> http_status = 200,
          http_headers =
            [(''Access-Control-Allow-Origin'', ''*''),
             (''Access-Control-Allow-Methods'', ''POST, GET, OPTIONS''),
             (''Access-Control-Allow-Headers'',
              ''authorization, x-client-info, apikey, content-type'')],
          http_body = Text ''ok'' \<rparr>
      else
        (case serve_try e req of
           Returns r \<Rightarrow> r
         | Throws err \<Rightarrow>
             \<lparr> http_status = 200,
               http_headers = json_headers,
               http_body = Json (JObj [(''success'', JBool False), (''error'', JStr err)]) \<rparr>))"

section \<open>The driver notification panel (src/unnamed/part_001)\<close>

subsection \<open>Rows, messages and effects\<close>

text \<open>
  Field names follow the source; \<open>id\<close>, \<open>status\<close> and \<open>type\<close> carry a prefix where
  several rows have them: \<open>tr_id\<close> is \<open>airport_transfer.id\<close>, \<open>drv_id\<close> and
  \<open>drv_email\<close> are \<open>drivers.id\<close> and \<open>drivers.email\<close>, \<open>bk_id\<close> is \<open>bookings.id\<close>,
  \<open>msg_id\<close> and \<open>msg_type\<close> are \<open>OverdueMessage.id\<close> and \<open>.type\<close>. A status is the
  string the table holds.
\<close>

record user =
  email :: string

record driver =
  drv_id :: string
  drv_email :: string

record AirportTransfer =
  tr_id :: int
  booking_code :: string
  customer_name :: string
  pickup_location :: string
  dropoff_location :: string
  pickup_date :: "string option"
  pickup_time :: "string option"
  status :: string
  driver_id :: "string option"
  price :: "int option"

record booking =
  bk_id :: string
  code_booking :: string
  end_date :: "string option"
  remaining_payments :: "int option"
  user_id :: string

record OverdueMessage =
  msg_id :: string
  message :: string
  created_at :: string
  is_read :: bool
  msg_type :: string
  amount :: "int option"
  days_overdue :: "int option"

record toast_msg =
  title :: string
  description :: string
  variant :: "string option"

text \<open>The object given to \<open>.update(...)\<close>: a status, and a driver when the key is there.\<close>

record payload =
  payload_status :: string
  payload_driver_id :: "string option"

text \<open>
  What a handler does that is seen outside it, in the order it happens: a toast, a
  \<open>setTransfers\<close> with the list it leaves, an update request sent to the backend.
\<close>

datatype effect =
    Toast toast_msg
  | SetTransfers "AirportTransfer list"
  | Update int payload

subsection \<open>The backend, the runtime and the component state\<close>

text \<open>
  The hosted database is outside the repository. It is modelled by its tables, the
  session's user and, for each kind of call, whether the backend answers with an error
  or the call throws. The runtime gives the clock, the parsing of a date string (\<open>None\<close>
  for an invalid date) and the locale's rendering of a number.
\<close>

text \<open>
  In \<open>world\<close>, the fields from \<open>session_user\<close> to \<open>bookings\<close> are the backend, those
  from \<open>now\<close> to \<open>toLocaleString\<close> the runtime, \<open>historyMode\<close> is the component's
  prop, the fields from \<open>transfers\<close> to \<open>driverId\<close> are its state and \<open>effects\<close> is
  the trace of what it did.
\<close>

datatype call = GetUser | SelectDrivers | SelectTransfers | UpdateTransfer | SelectBookings

datatype fault = NoFault | ErrorReply string | Throw string

record world =
  session_user :: "user option"
  faults :: "call \<Rightarrow> fault"
  drivers :: "driver list"
  airport_transfer :: "AirportTransfer list"
  bookings :: "booking list"
  now :: int
  Date_parse :: "string \<Rightarrow> int option"
  toLocaleString :: "int \<Rightarrow> string"
  historyMode :: bool
  transfers :: "AirportTransfer list"
  overdueMessages :: "OverdueMessage list"
  unreadCount :: int
  loading :: bool
  error :: "string option"
  driverId :: "string option"
  effects :: "effect list"

subsection \<open>Queries\<close>

text \<open>
  \<open>ILIKE\<close>: the pattern language of SQL's \<open>LIKE\<close> (\<open>%\<close> any sequence, \<open>_\<close> any one
  character, backslash escapes the next character) on the lower-cased pattern and text.
  Lower-casing is that of the ASCII letters.
\<close>

definition lower :: "char \<Rightarrow> char" where
  "lower c =
     (case map_of (zip ''ABCDEFGHIJKLMNOPQRSTUVWXYZ'' ''abcdefghijklmnopqrstuvwxyz'') c of
        None \<Rightarrow> c
      | Some l \<Rightarrow> l)"

fun like :: "string \<Rightarrow> string \<Rightarrow> bool" where
  "like [] s = (s = [])"
| "like (p # ps) [] = (p = CHR ''%'' \<and> like ps [])"
| "like (p # ps) (c # cs) =
     (if p = CHR ''%'' then like ps (c # cs) \<or> like (p # ps) cs
      else if p = CHR ''_'' then like ps cs
      else if p = CHR 0x5C then (case ps of [] \<Rightarrow> False | q # qs \<Rightarrow> c = q \<and> like qs cs)
      else p = c \<and> like ps cs)"

definition ilike :: "string \<Rightarrow> string \<Rightarrow> bool" where
  "ilike pattern s = like (map lower pattern) (map lower s)"

text \<open>
  \<open>.maybeSingle()\<close> gives no row and no error when nothing matches; \<open>.single()\<close> gives an
  error there. Both give an error when several rows match.
\<close>

fun maybeSingle :: "'a list \<Rightarrow> 'a option \<times> string option" where
  "maybeSingle [] = (None, None)"
| "maybeSingle [x] = (Some x, None)"
| "maybeSingle xs = (None, Some ''JSON object requested, multiple (or no) rows returned'')"

fun single :: "'a list \<Rightarrow> 'a option \<times> string option" where
  "single [x] = (Some x, None)"
| "single xs = (None, Some ''JSON object requested, multiple (or no) rows returned'')"

text \<open>\<open>supabase.auth.getUser()\<close>: the user and the error of its reply.\<close>

definition getUser :: "world \<Rightarrow> (user option \<times> string option) outcome" where
  "getUser w =
     (case faults w GetUser of
        Throw m \<Rightarrow> Throws m
      | ErrorReply e \<Rightarrow> Returns (None, Some e)
      | NoFault \<Rightarrow> Returns (session_user w, None))"

text \<open>Lines 84-89: \<open>from("drivers").select("id").ilike("email", user.email).maybeSingle()\<close>.\<close>

definition drivers_ilike_maybeSingle :: "world \<Rightarrow> string \<Rightarrow> (string option \<times> string option) outcome" where
  "drivers_ilike_maybeSingle w mail =
     (case faults w SelectDrivers of
        Throw m \<Rightarrow> Throws m
      | ErrorReply e \<Rightarrow> Returns (None, Some e)
      | NoFault \<Rightarrow>
          Returns (maybeSingle (map drv_id (filter (\<lambda>d. ilike mail (drv_email d)) (drivers w)))))"

text \<open>Lines 222-226: \<open>from("drivers").select("id").eq("email", user.email).single()\<close>.\<close>

definition drivers_eq_single :: "world \<Rightarrow> string \<Rightarrow> (string option \<times> string option) outcome" where
  "drivers_eq_single w mail =
     (case faults w SelectDrivers of
        Throw m \<Rightarrow> Throws m
      | ErrorReply e \<Rightarrow> Returns (None, Some e)
      | NoFault \<Rightarrow>
          Returns (single (map drv_id (filter (\<lambda>d. drv_email d = mail) (drivers w)))))"

text \<open>
  Lines 109-120: the rows of \<open>airport_transfer\<close> with the driver's id whose status is in
  the list that \<open>historyMode\<close> chooses.
\<close>

definition select_airport_transfer ::
  "world \<Rightarrow> string \<Rightarrow> (AirportTransfer list option \<times> string option) outcome" where
  "select_airport_transfer w currentDriverId =
     (case faults w SelectTransfers of
        Throw m \<Rightarrow> Throws m
      | ErrorReply e \<Rightarrow> Returns (None, Some e)
      | NoFault \<Rightarrow>
          Returns
            (Some (filter
                     (\<lambda>r. driver_id r = Some currentDriverId \<and>
                          status r \<in> set (if historyMode w then [''completed'', ''canceled'']
                                          else [''pending'', ''confirmed'']))
                     (airport_transfer w)),
             None))"

text \<open>Lines 150-154: the user's bookings with \<open>remaining_payments > 0\<close>.\<close>

definition select_bookings ::
  "world \<Rightarrow> string \<Rightarrow> (booking list option \<times> string option) outcome" where
  "select_bookings w userId =
     (case faults w SelectBookings of
        Throw m \<Rightarrow> Throws m
      | ErrorReply e \<Rightarrow> Returns (None, Some e)
      | NoFault \<Rightarrow>
          Returns
            (Some (filter
                     (\<lambda>b. user_id b = userId \<and>
                          (case remaining_payments b of None \<Rightarrow> False | Some r \<Rightarrow> 0 < r))
                     (bookings w)),
             None))"

text \<open>
  \<open>from("airport_transfer").update(p).eq("id", transferId)\<close>: the request is sent; unless
  the backend rejects it or the call throws, every row with that id takes the payload's
  fields. The result is the error of the reply.
\<close>

definition apply_payload :: "payload \<Rightarrow> AirportTransfer \<Rightarrow> AirportTransfer" where
  "apply_payload p r =
     r\<lparr> status := payload_status p,
        driver_id := (case payload_driver_id p of None \<Rightarrow> driver_id r | Some d \<Rightarrow> Some d) \<rparr>"

definition update_airport_transfer ::
  "payload \<Rightarrow> int \<Rightarrow> world \<Rightarrow> string option outcome \<times> world" where
  "update_airport_transfer p transferId w =
     (let w' = w\<lparr> effects := effects w @ [Update transferId p] \<rparr> in
      case faults w UpdateTransfer of
        Throw m \<Rightarrow> (Throws m, w')
      | ErrorReply e \<Rightarrow> (Returns (Some e), w')
      | NoFault \<Rightarrow>
          (Returns None,
           w'\<lparr> airport_transfer :=
                 map (\<lambda>r. if tr_id r = transferId then apply_payload p r else r)
                   (airport_transfer w) \<rparr>))"

subsection \<open>State setters with an effect\<close>

definition toast :: "toast_msg \<Rightarrow> world \<Rightarrow> world" where
  "toast t w = w\<lparr> effects := effects w @ [Toast t] \<rparr>"

definition setTransfers :: "(AirportTransfer list \<Rightarrow> AirportTransfer list) \<Rightarrow> world \<Rightarrow> world" where
  "setTransfers f w =
     w\<lparr> transfers := f (transfers w), effects := effects w @ [SetTransfers (f (transfers w))] \<rparr>"

subsection \<open>fetchOverdueMessages, lines 147-189\<close>

text \<open>
  One round of the \<open>forEach\<close>. The division and \<open>Math.ceil\<close> are those of the reals;
  an end date that is null or empty is skipped, and an invalid one gives \<open>NaN\<close>, which
  is not greater than 0.
\<close>

definition overdue_push :: "world \<Rightarrow> int \<Rightarrow> OverdueMessage list \<Rightarrow> booking \<Rightarrow> OverdueMessage list" where
  "overdue_push w today messages b =
     (case end_date b of
        None \<Rightarrow> messages
      | Some s \<Rightarrow>
          if s = [] then messages
          else
            (case Date_parse w s of
               None \<Rightarrow> messages
             | Some endDate \<Rightarrow>
                 (let diffTime = today - endDate;
                      diffDays = \<lceil>real_of_int diffTime / (1000 * 60 * 60 * 24)\<rceil>
                  in if diffDays > 0 then
                       messages @
                       [\<lparr> msg_id = ''overdue-'' @ bk_id b,
                          message =
                            ''Pembayaran untuk booking '' @ code_booking b @
                            '' telah jatuh tempo '' @ show_int diffDays @
                            '' hari. Sisa pembayaran: Rp '' @
                            (case remaining_payments b of
                               None \<Rightarrow> ''undefined''
                             | Some r \<Rightarrow> toLocaleString w r),
                          created_at = s,
                          is_read = False,
                          msg_type = ''overdue'',
                          amount = remaining_payments b,
                          days_overdue = Some diffDays \<rparr>]
                     else messages)))"

definition fetchOverdueMessages :: "string \<Rightarrow> world \<Rightarrow> world" where
  "fetchOverdueMessages userId w =
     (case select_bookings w userId of
        Throws m \<Rightarrow> w
      | Returns (bookingsData, bookingsError) \<Rightarrow>
          (case bookingsError of
             Some e \<Rightarrow> w
           | None \<Rightarrow>
               (let today = now w;
                    messages =
                      foldl (overdue_push w today) []
                        (case bookingsData of None \<Rightarrow> [] | Some bs \<Rightarrow> bs)
                in w\<lparr> overdueMessages := messages,
                      unreadCount := int (length (filter (\<lambda>m. \<not> is_read m) messages)) \<rparr>)))"

subsection \<open>markMessageAsRead, lines 191-198\<close>

definition markMessageAsRead :: "string \<Rightarrow> world \<Rightarrow> world" where
  "markMessageAsRead messageId w =
     w\<lparr> overdueMessages :=
          map (\<lambda>msg. if msg_id msg = messageId then msg\<lparr> is_read := True \<rparr> else msg)
            (overdueMessages w),
        unreadCount := max 0 (unreadCount w - 1) \<rparr>"

subsection \<open>fetchAirportTransfers, lines 66-145\<close>

text \<open>
  The \<open>finally\<close> clause runs on every path, also after the early returns, which have set
  \<open>loading\<close> already. An empty result sets the notice in \<open>error\<close> and goes on to the
  overdue messages.
\<close>

definition fetchAirportTransfers :: "world \<Rightarrow> world" where
  "fetchAirportTransfers w0 =
     (let w = w0\<lparr> loading := True, error := None \<rparr>;
          unexpected = (\<lambda>v. v\<lparr> error := Some ''An unexpected error occurred'' \<rparr>);
          finally = (\<lambda>v. v\<lparr> loading := False \<rparr>)
      in finally
        (case getUser w of
           Throws m \<Rightarrow> unexpected w
         | Returns (usr, userError) \<Rightarrow>
             (case userError of
                Some e \<Rightarrow> w\<lparr> error := Some ''Driver not authenticated'', loading := False \<rparr>
              | None \<Rightarrow>
                  (case usr of
                     None \<Rightarrow> w\<lparr> error := Some ''Driver not authenticated'', loading := False \<rparr>
                   | Some u \<Rightarrow>
                       (case drivers_ilike_maybeSingle w (email u) of
                          Throws m \<Rightarrow> unexpected w
                        | Returns (driverData, driverError) \<Rightarrow>
                            (case driverError of
                               Some e \<Rightarrow> w\<lparr> error := Some ''Driver lookup failed'', loading := False \<rparr>
                             | None \<Rightarrow>
                                 (case driverData of
                                    None \<Rightarrow>
                                      w\<lparr> error := Some ''Driver ID not found for current user'',
                                         loading := False \<rparr>
                                  | Some currentDriverId \<Rightarrow>
                                      (let w1 = w\<lparr> driverId := Some currentDriverId \<rparr> in
                                       case select_airport_transfer w1 currentDriverId of
                                         Throws m \<Rightarrow> unexpected w1
                                       | Returns (data, transferError) \<Rightarrow>
                                           fetchOverdueMessages currentDriverId
                                             (case transferError of
                                                Some e \<Rightarrow>
                                                  w1\<lparr> error := Some ''Failed to get airport transfers'' \<rparr>
                                              | None \<Rightarrow>
                                                  (let rows = (case data of None \<Rightarrow> [] | Some d \<Rightarrow> d);
                                                       w2 = setTransfers (\<lambda>prev. rows) w1
                                                   in if rows = [] then
                                                        w2\<lparr> error :=
                                                              Some (if historyMode w2
                                                                    then ''No airport transfer history found.''
                                                                    else ''No pending transfers assigned to you.'') \<rparr>
                                                      else w2))))))))))"

subsection \<open>handleAccept, lines 204-294\<close>

text \<open>
  Each early \<open>return\<close> ends the handler after its toast. The closing call of
  \<open>fetchAirportTransfers\<close> is not awaited in the source: it runs after the handler's
  own effects and catches its own errors, so it is composed here after them.
\<close>

definition destructive :: "string \<Rightarrow> toast_msg" where
  "destructive d = \<lparr> title = ''Error'', description = d, variant = Some ''destructive'' \<rparr>"

definition handleAccept :: "int \<Rightarrow> world \<Rightarrow> world" where
  "handleAccept transferId w =
     (let caught = toast (destructive ''Something went wrong while accepting the transfer.'') in
      case getUser w of
        Throws m \<Rightarrow> caught w
      | Returns (usr, userError) \<Rightarrow>
          (case userError of
             Some e \<Rightarrow> toast (destructive ''Driver not authenticated.'') w
           | None \<Rightarrow>
               (case usr of
                  None \<Rightarrow> toast (destructive ''Driver not authenticated.'') w
                | Some u \<Rightarrow>
                    (case drivers_eq_single w (email u) of
                       Throws m \<Rightarrow> caught w
                     | Returns (driverData, driverError) \<Rightarrow>
                         (case driverError of
                            Some e \<Rightarrow> toast (destructive ''Driver ID not found.'') w
                          | None \<Rightarrow>
                              (case driverData of
                                 None \<Rightarrow> toast (destructive ''Driver ID not found.'') w
                               | Some currentDriverId \<Rightarrow>
                                   (case update_airport_transfer
                                           \<lparr> payload_status = ''confirmed'',
                                             payload_driver_id = Some currentDriverId \<rparr>
                                           transferId w of
                                      (Throws m, w1) \<Rightarrow> caught w1
                                    | (Returns (Some updateError), w1) \<Rightarrow>
                                        toast (destructive ''Failed to accept the transfer.'') w1
                                    | (Returns None, w1) \<Rightarrow>
                                        fetchAirportTransfers
                                          (toast
                                             \<lparr> title = ''Success'',
                                               description = ''Transfer accepted and driver assigned.'',
                                               variant = None \<rparr>
                                             (setTransfers
                                                (map (\<lambda>item.
                                                   if tr_id item = transferId then
                                                     item\<lparr> status := ''confirmed'',
                                                           driver_id := Some currentDriverId \<rparr>
                                                   else item))
                                                w1)))))))))"

subsection \<open>handleComplete, lines 344-390\<close>

definition handleComplete :: "int \<Rightarrow> world \<Rightarrow> world" where
  "handleComplete transferId w =
     (case update_airport_transfer
             \<lparr> payload_status = ''completed'', payload_driver_id = None \<rparr> transferId w of
        (Throws m, w1) \<Rightarrow> toast (destructive ''An unexpected error occurred.'') w1
      | (Returns (Some transferError), w1) \<Rightarrow>
          toast (destructive ''Failed to mark the transfer as completed.'') w1
      | (Returns None, w1) \<Rightarrow>
          fetchAirportTransfers
            (toast
               \<lparr> title = ''Transfer Completed'',
                 description = ''Pesanan sudah Selesai'',
                 variant = Some ''success'' \<rparr>
               (setTransfers
                  (map (\<lambda>item.
                     if tr_id item = transferId then item\<lparr> status := ''completed'' \<rparr> else item))
                  w1)))"

section \<open>Observations used in the statements\<close>

text \<open>
  The envelope as the specification words it: a JSON body with a boolean \<open>success\<close>, a
  number \<open>status\<close> and an object \<open>data\<close>.
\<close>

definition has_envelope :: "body \<Rightarrow> bool" where
  "has_envelope b =
     (case b of
        Text s \<Rightarrow> False
      | Json v \<Rightarrow>
          (case property v ''success'' of JBool x \<Rightarrow> True | _ \<Rightarrow> False) \<and>
          (case property v ''status'' of JNum n \<Rightarrow> True | _ \<Rightarrow> False) \<and>
          (case property v ''data'' of JObj kvs \<Rightarrow> True | _ \<Rightarrow> False))"

text \<open>The effects a handler has added to those of the world it started from.\<close>

definition new_effects :: "world \<Rightarrow> world \<Rightarrow> effect list" where
  "new_effects w w' = drop (length (effects w)) (effects w')"

fun toasts_of :: "effect list \<Rightarrow> toast_msg list" where
  "toasts_of [] = []"
| "toasts_of (Toast t # es) = t # toasts_of es"
| "toasts_of (e # es) = toasts_of es"

fun lists_set :: "effect list \<Rightarrow> AirportTransfer list list" where
  "lists_set [] = []"
| "lists_set (SetTransfers rows # es) = rows # lists_set es"
| "lists_set (e # es) = lists_set es"

text \<open>A sequence of clicks on overdue messages, first to last.\<close>

definition markMessagesAsRead :: "string list \<Rightarrow> world \<Rightarrow> world" where
  "markMessagesAsRead ids w = foldl (\<lambda>v messageId. markMessageAsRead messageId v) w ids"

text \<open>
  The segments of a string at a separator, as \<open>s.split(",")\<close> gives them: the empty
  string has one segment, the empty one.
\<close>

fun split_at :: "char \<Rightarrow> string \<Rightarrow> string list" where
  "split_at c [] = [[]]"
| "split_at c (x # xs) =
     (if x = c then [] # split_at c xs
      else (case split_at c xs of [] \<Rightarrow> [[x]] | s # ss \<Rightarrow> (x # s) # ss))"

subsection \<open>Concrete inputs\<close>

definition gateway_down :: env where
  "gateway_down =
     \<lparr> FONNTE_TOKEN = Some ''token'',
       fetch = (\<lambda>r. Throws ''TypeError: error sending request''),
       JSON_parse = (\<lambda>s. None) \<rparr>"

text \<open>A gateway that answers 500 with a body that is not JSON.\<close>

definition gateway_html :: env where
  "gateway_html =
     \<lparr> FONNTE_TOKEN = Some ''token'',
       fetch = (\<lambda>r. Returns \<lparr> ok = False, resp_status = 500,
                               resp_text = Returns ''<html>Bad Gateway</html>'' \<rparr>),
       JSON_parse = (\<lambda>s. None) \<rparr>"

text \<open>A gateway whose body is the JSON number 5.\<close>

definition gateway_number :: env where
  "gateway_number =
     \<lparr> FONNTE_TOKEN = Some ''token'',
       fetch = (\<lambda>r. Returns \<lparr> ok = True, resp_status = 200, resp_text = Returns ''5'' \<rparr>),
       JSON_parse = (\<lambda>s. if s = ''5'' then Some (JNum 5) else None) \<rparr>"

definition post_two_targets :: request where
  "post_two_targets =
     \<lparr> req_method = ''POST'',
       req_json = Returns (JObj [(''target'', JArr [JStr ''628111'', JStr ''628222'']),
                                 (''message'', JStr ''Halo'')]) \<rparr>"

definition post_bad_body :: request where
  "post_bad_body =
     \<lparr> req_method = ''POST'',
       req_json = Throws ''SyntaxError: Unexpected end of JSON input'' \<rparr>"

definition transfer7 :: AirportTransfer where
  "transfer7 =
     \<lparr> tr_id = 7, booking_code = ''AT-0007'', customer_name = ''Budi'',
       pickup_location = ''CGK'', dropoff_location = ''Bandung'',
       pickup_date = Some ''2025-03-01'', pickup_time = Some ''08:00'',
       status = ''pending'', driver_id = Some ''drv-1'', price = Some 350000 \<rparr>"

definition transfer8 :: AirportTransfer where
  "transfer8 =
     \<lparr> tr_id = 8, booking_code = ''AT-0008'', customer_name = ''Sari'',
       pickup_location = ''CGK'', dropoff_location = ''Bogor'',
       pickup_date = None, pickup_time = None,
       status = ''completed'', driver_id = Some ''drv-1'', price = None \<rparr>"

definition booking_late :: booking where
  "booking_late =
     \<lparr> bk_id = ''41'', code_booking = ''BK-41'', end_date = Some ''2025-02-24'',
       remaining_payments = Some 500000, user_id = ''drv-1'' \<rparr>"

definition booking_running :: booking where
  "booking_running =
     \<lparr> bk_id = ''42'', code_booking = ''BK-42'', end_date = Some ''2025-03-02'',
       remaining_payments = Some 120000, user_id = ''drv-1'' \<rparr>"

text \<open>
  A backend with one driver, two transfers and two bookings, a session whose email is
  the driver's, and a panel that has just been mounted. The clock stands at a multiple
  of a day; \<open>2025-02-24\<close> is five days before it and \<open>2025-03-02\<close> one day after.
\<close>

definition world0 :: world where
  "world0 =
     \<lparr> session_user = Some \<lparr> email = ''driver@example.com'' \<rparr>,
       faults = (\<lambda>c. NoFault),
       drivers = [\<lparr> drv_id = ''drv-1'', drv_email = ''driver@example.com'' \<rparr>],
       airport_transfer = [transfer7, transfer8],
       bookings = [booking_late, booking_running],
       now = 20148 * 86400000,
       Date_parse = (\<lambda>s. if s = ''2025-02-24'' then Some (20143 * 86400000)
                           else if s = ''2025-03-02'' then Some (20149 * 86400000)
                           else None),
       toLocaleString = show_int,
       historyMode = False,
       transfers = [transfer7],
       overdueMessages = [],
       unreadCount = 0,
       loading = False,
       error = None,
       driverId = None,
       effects = [] \<rparr>"

text \<open>
  The same world with the session email written in another letter case than the
  driver's row.
\<close>

definition world_mixed_case :: world where
  "world_mixed_case = world0\<lparr> session_user := Some \<lparr> email = ''Driver@Example.com'' \<rparr> \<rparr>"

section \<open>The messaging adapter: target normalisation\<close>

lemma js_join_strings: "js_join (map JStr ss) sep = join_strings sep ss"
  by (simp add: js_join_def comp_def)

lemma filter_Boolean_strings:
  "filter Boolean (map JStr ss) = map JStr (filter (\<lambda>s. s \<noteq> []) ss)"
  by (induction ss) simp_all

lemma formattedTarget_strings:
  "formattedTarget (JArr (map JStr ss)) = join_strings '','' (filter (\<lambda>s. s \<noteq> []) ss)"
  by (simp add: formattedTarget_def filter_Boolean_strings js_join_strings)

lemma formattedTarget_scalar:
  "\<not> isArray t \<Longrightarrow> formattedTarget t = (if Boolean t then trim (js_String t) else [])"
  by (simp add: formattedTarget_def js_or_def trim_def)

text \<open>
  C8, as amended. For a target that is an array of strings, the \<open>target\<close> field of the
  request sent to the gateway is the comma-joined string of its non-empty elements. When
  no element is empty this is the comma-join of all the elements, and the array of
  \<open>628111\<close> and \<open>628222\<close> is forwarded as \<open>628111,628222\<close>.
\<close>

theorem array_target_forwarded:
  "map_of (form (send_request token (JArr (map JStr ss)) msg)) ''target''
     = Some (join_strings '','' (filter (\<lambda>s. s \<noteq> []) ss))
   \<and> ([] \<notin> set ss \<longrightarrow>
        map_of (form (send_request token (JArr (map JStr ss)) msg)) ''target''
          = Some (js_join (map JStr ss) '',''))
   \<and> map_of (form (send_request token (JArr [JStr ''628111'', JStr ''628222'']) msg)) ''target''
       = Some ''628111,628222''"
proof -
  have a: "map_of (form (send_request token (JArr (map JStr ss)) msg)) ''target''
     = Some (join_strings '','' (filter (\<lambda>s. s \<noteq> []) ss))"
    by (simp add: send_request_def formattedTarget_strings)
  have b: "[] \<notin> set ss \<Longrightarrow> filter (\<lambda>s. s \<noteq> []) ss = ss"
    by (induction ss) auto
  have c: "map_of (form (send_request token (JArr [JStr ''628111'', JStr ''628222'']) msg)) ''target''
       = Some ''628111,628222''"
    by (simp add: send_request_def formattedTarget_def js_join_def)
  show ?thesis using a b c by (simp add: js_join_strings)
qed

theorem array_target_forwarded_witness:
  "map_of (form (send_request None (JArr (map JStr [''0811'', [], ''0822'', ''0833''])) (JStr ''Halo''))) ''target''
     = Some ''0811,0822,0833''
   \<and> map_of (form (send_request None (JArr (map JStr [''0811'', ''0822''])) JUndefined)) ''target''
     = Some (js_join (map JStr [''0811'', ''0822'']) '','')"
  using array_target_forwarded [of None "[''0811'', [], ''0822'', ''0833'']" "JStr ''Halo''"]
        array_target_forwarded [of None "[''0811'', ''0822'']" JUndefined]
  by (simp add: js_join_def)

text \<open>
  C8 as it is written fails where an element is the empty string: the forwarded target
  is not the comma-join of the elements, which has an empty segment.
\<close>

theorem array_target_counterexample:
  "map_of (form (send_request (Some ''token'')
                   (JArr [JStr ''628111'', JStr [], JStr ''628222'']) (JStr ''Halo''))) ''target''
     \<noteq> Some (js_join [JStr ''628111'', JStr [], JStr ''628222''] '','')"
  by (simp add: send_request_def formattedTarget_def js_join_def)

lemma split_at_none: "c \<notin> set s \<Longrightarrow> split_at c s = [s]"
  by (induction s) auto

lemma split_at_append:
  "c \<notin> set s \<Longrightarrow> split_at c (s @ c # t) = s # split_at c t"
  by (induction s) auto

lemma split_at_join:
  "xs \<noteq> [] \<Longrightarrow> \<forall>s \<in> set xs. c \<notin> set s \<Longrightarrow> split_at c (join_strings [c] xs) = xs"
proof (induction "[c]" xs rule: join_strings.induct)
  case 1
  then show ?case by simp
next
  case (2 s)
  then show ?case by (simp add: split_at_none)
next
  case (3 s t ts)
  then show ?case by (simp add: split_at_append)
qed

lemma formattedTarget_segments:
  assumes "\<forall>s \<in> set ss. CHR '','' \<notin> set s" and "filter (\<lambda>s. s \<noteq> []) ss \<noteq> []"
  shows "split_at CHR '','' (formattedTarget (JArr (map JStr ss))) = filter (\<lambda>s. s \<noteq> []) ss"
    and "[] \<notin> set (split_at CHR '','' (formattedTarget (JArr (map JStr ss))))"
proof -
  have "\<forall>s \<in> set (filter (\<lambda>s. s \<noteq> []) ss). CHR '','' \<notin> set s"
    using assms(1) by simp
  then show a: "split_at CHR '','' (formattedTarget (JArr (map JStr ss))) = filter (\<lambda>s. s \<noteq> []) ss"
    using split_at_join [OF assms(2), of "CHR '',''"] by (simp add: formattedTarget_strings)
  show "[] \<notin> set (split_at CHR '','' (formattedTarget (JArr (map JStr ss))))"
    by (simp add: a)
qed


text \<open>
  C10, as amended. For an array target the falsy elements are dropped before the
  comma-join, so an array of strings is forwarded as the join of its non-empty
  elements. When no element holds a comma and some element is not empty, the segments
  of the forwarded string are exactly the non-empty elements, so none is empty. A
  target that is not an array is forwarded as \<open>String(target)\<close> trimmed when it is
  truthy, and as the empty string when it is falsy: \<open>null\<close> and \<open>undefined\<close>, and
  also \<open>false\<close>, \<open>0\<close> and the empty string.
\<close>

theorem target_normalisation:
  "formattedTarget (JArr xs) = js_join (filter Boolean xs) '',''
   \<and> formattedTarget (JArr (map JStr ss)) = join_strings '','' (filter (\<lambda>s. s \<noteq> []) ss)
   \<and> formattedTarget (JArr [JStr ''628111'', JStr [], JStr ''628222'']) = ''628111,628222''
   \<and> ((\<forall>s \<in> set ss. CHR '','' \<notin> set s) \<and> filter (\<lambda>s. s \<noteq> []) ss \<noteq> [] \<longrightarrow>
        split_at CHR '','' (formattedTarget (JArr (map JStr ss))) = filter (\<lambda>s. s \<noteq> []) ss \<and>
        [] \<notin> set (split_at CHR '','' (formattedTarget (JArr (map JStr ss)))))
   \<and> (\<not> isArray t \<longrightarrow> formattedTarget t = (if Boolean t then trim (js_String t) else []))
   \<and> formattedTarget JNull = [] \<and> formattedTarget JUndefined = []"
proof -
  have "formattedTarget (JArr xs) = js_join (filter Boolean xs) '',''"
    by (simp add: formattedTarget_def)
  moreover have "formattedTarget (JArr [JStr ''628111'', JStr [], JStr ''628222'']) = ''628111,628222''"
    by (simp add: formattedTarget_def js_join_def)
  moreover have "formattedTarget JNull = []" "formattedTarget JUndefined = []"
    by (simp_all add: formattedTarget_scalar)
  moreover have "(\<forall>s \<in> set ss. CHR '','' \<notin> set s) \<and> filter (\<lambda>s. s \<noteq> []) ss \<noteq> [] \<longrightarrow>
        split_at CHR '','' (formattedTarget (JArr (map JStr ss))) = filter (\<lambda>s. s \<noteq> []) ss \<and>
        [] \<notin> set (split_at CHR '','' (formattedTarget (JArr (map JStr ss))))"
    using formattedTarget_segments [of ss] by (intro impI conjI) (elim conjE, assumption)+
  ultimately show ?thesis
    using formattedTarget_strings [of ss] formattedTarget_scalar [of t] by simp
qed

theorem target_normalisation_witness:
  "formattedTarget (JArr [JNum 0, JStr ''0811'', JNull, JNum 62822]) = ''0811,62822''
   \<and> split_at CHR '','' (formattedTarget (JArr (map JStr [''0811'', [], ''0822'']))) = [''0811'', ''0822'']
   \<and> formattedTarget (JStr '' 0811 '') = ''0811''
   \<and> formattedTarget (JNum 0) = []"
  using target_normalisation [of "[JNum 0, JStr ''0811'', JNull, JNum 62822]"
      "[''0811'', [], ''0822'']" "JStr '' 0811 ''"]
    target_normalisation [of "[]" "[]" "JNum 0"]
  by (simp add: js_join_def trim_def is_js_space_def show_int_def)

text \<open>
  C10 as it is written fails twice. At the target \<open>false\<close>, \<open>String(false)\<close> trimmed
  is \<open>false\<close> and the forwarded target is the empty string. And an empty segment is
  forwarded where an element is truthy and renders as the empty string: the array of
  \<open>628111\<close>, the empty array and \<open>628222\<close> is forwarded as \<open>628111,,628222\<close>.
\<close>

theorem scalar_target_counterexample:
  "formattedTarget (JBool False) \<noteq> trim (js_String (JBool False))
   \<and> formattedTarget (JArr [JStr ''628111'', JArr [], JStr ''628222'']) = ''628111,,628222''
   \<and> [] \<in> set (split_at CHR '','' (formattedTarget (JArr [JStr ''628111'', JArr [], JStr ''628222''])))"
  by (simp add: formattedTarget_def js_or_def trim_def is_js_space_def js_join_def)

section \<open>The messaging adapter: the response\<close>

lemma serve_status: "http_status (serve e req) = 200"
  by (simp add: serve_def serve_try_def Let_def split: outcome.splits prod.splits)

lemma serve_answered:
  "req_method req \<noteq> ''OPTIONS'' \<Longrightarrow> req_json req = Returns b \<Longrightarrow>
   destructure b = Returns (t, m) \<Longrightarrow>
   fetch e (send_request (FONNTE_TOKEN e) t m) = Returns r \<Longrightarrow> resp_text r = Returns raw \<Longrightarrow>
   http_body (serve e req) =
     Json (JObj [(''success'', JBool (ok r)), (''status'', JNum (resp_status r)),
                 (''data'', (case JSON_parse e raw of
                               Some v \<Rightarrow> v | None \<Rightarrow> JObj [(''raw'', JStr raw)]))])"
  by (simp add: serve_def serve_try_def)

lemma serve_caught:
  "req_method req \<noteq> ''OPTIONS'' \<Longrightarrow> serve_try e req = Throws err \<Longrightarrow>
   http_body (serve e req) = Json (JObj [(''success'', JBool False), (''error'', JStr err)])"
  by (simp add: serve_def)

lemma serve_try_throws:
  "(serve_try e req = Throws err) =
     (req_json req = Throws err
      \<or> (\<exists>b. req_json req = Returns b \<and>
            (destructure b = Throws err
             \<or> (\<exists>t m. destructure b = Returns (t, m) \<and>
                   (fetch e (send_request (FONNTE_TOKEN e) t m) = Throws err
                    \<or> (\<exists>r. fetch e (send_request (FONNTE_TOKEN e) t m) = Returns r \<and>
                            resp_text r = Throws err))))))"
  by (auto simp: serve_try_def Let_def split: outcome.splits prod.splits)

text \<open>
  C7, as amended. Every request is answered with HTTP status 200. When the request body
  is read and the gateway answers, the body is the envelope with \<open>success\<close> the
  gateway's \<open>ok\<close>, \<open>status\<close> its status and \<open>data\<close> the parsed text of its answer,
  whatever JSON value that is, or \<open>{raw: text}\<close> when the text is not JSON. When reading
  the request body, destructuring it, calling the gateway or reading its answer throws,
  the body is \<open>{success: false, error: String(error)}\<close>, with no \<open>status\<close> and no
  \<open>data\<close>; and the \<open>try\<close> block throws in these four cases only.
\<close>

theorem adapter_always_200:
  "http_status (serve e req) = 200
   \<and> (req_method req \<noteq> ''OPTIONS'' \<and> req_json req = Returns b \<and>
      destructure b = Returns (t, m) \<and>
      fetch e (send_request (FONNTE_TOKEN e) t m) = Returns r \<and> resp_text r = Returns raw
      \<longrightarrow> http_body (serve e req) =
            Json (JObj [(''success'', JBool (ok r)), (''status'', JNum (resp_status r)),
                        (''data'', (case JSON_parse e raw of
                                      Some v \<Rightarrow> v | None \<Rightarrow> JObj [(''raw'', JStr raw)]))]))
   \<and> (req_method req \<noteq> ''OPTIONS'' \<and> serve_try e req = Throws err
      \<longrightarrow> http_body (serve e req) =
            Json (JObj [(''success'', JBool False), (''error'', JStr err)]))
   \<and> ((serve_try e req = Throws err) =
        (req_json req = Throws err
         \<or> (\<exists>b. req_json req = Returns b \<and>
               (destructure b = Throws err
                \<or> (\<exists>t m. destructure b = Returns (t, m) \<and>
                      (fetch e (send_request (FONNTE_TOKEN e) t m) = Throws err
                       \<or> (\<exists>r. fetch e (send_request (FONNTE_TOKEN e) t m) = Returns r \<and>
                               resp_text r = Throws err)))))))"
  using serve_status [of e req] serve_answered [of req b t m e r raw]
    serve_caught [of req e err] serve_try_throws [of e req err]
  by blast

theorem adapter_always_200_witness:
  "http_status (serve gateway_html post_two_targets) = 200
   \<and> http_body (serve gateway_html post_two_targets) =
       Json (JObj [(''success'', JBool False), (''status'', JNum 500),
                   (''data'', JObj [(''raw'', JStr ''<html>Bad Gateway</html>'')])])
   \<and> http_body (serve gateway_down post_two_targets) =
       Json (JObj [(''success'', JBool False),
                   (''error'', JStr ''TypeError: error sending request'')])"
  using adapter_always_200 [of gateway_html post_two_targets
      "JObj [(''target'', JArr [JStr ''628111'', JStr ''628222'']), (''message'', JStr ''Halo'')]"
      "JArr [JStr ''628111'', JStr ''628222'']" "JStr ''Halo''"
      "\<lparr> ok = False, resp_status = 500, resp_text = Returns ''<html>Bad Gateway</html>'' \<rparr>"
      "''<html>Bad Gateway</html>''" "[]"]
    adapter_always_200 [of gateway_down post_two_targets JNull JNull JNull
      "\<lparr> ok = False, resp_status = 500, resp_text = Returns [] \<rparr>" "[]"
      "''TypeError: error sending request''"]
  by (simp add: gateway_html_def gateway_down_def post_two_targets_def serve_try_def)

text \<open>
  C7 as it is written fails: when the gateway cannot be reached, and when the request
  body is not JSON, the answer has no \<open>status\<close> and no \<open>data\<close>; and when the gateway's
  text is the JSON number 5, \<open>data\<close> is that number, not an object.
\<close>

theorem envelope_counterexample:
  "\<not> has_envelope (http_body (serve gateway_down post_two_targets))
   \<and> \<not> has_envelope (http_body (serve gateway_html post_bad_body))
   \<and> \<not> has_envelope (http_body (serve gateway_number post_two_targets))"
  by (simp add: has_envelope_def serve_def serve_try_def gateway_down_def gateway_html_def
      gateway_number_def post_two_targets_def post_bad_body_def)

section \<open>Overdue messages\<close>

lemma fetchOverdueMessages_frame:
  "effects (fetchOverdueMessages u w) = effects w"
  "transfers (fetchOverdueMessages u w) = transfers w"
  "airport_transfer (fetchOverdueMessages u w) = airport_transfer w"
  "faults (fetchOverdueMessages u w) = faults w"
  "session_user (fetchOverdueMessages u w) = session_user w"
  "drivers (fetchOverdueMessages u w) = drivers w"
  "historyMode (fetchOverdueMessages u w) = historyMode w"
  "loading (fetchOverdueMessages u w) = loading w"
  "error (fetchOverdueMessages u w) = error w"
  "driverId (fetchOverdueMessages u w) = driverId w"
  by (simp_all add: fetchOverdueMessages_def Let_def split: outcome.splits option.splits prod.splits)

lemma overdue_push_append:
  "overdue_push w today ms b = ms @ overdue_push w today [] b"
  by (simp add: overdue_push_def Let_def split: option.splits)

lemma foldl_overdue_push:
  "foldl (overdue_push w today) ms bs = ms @ concat (map (overdue_push w today []) bs)"
proof (induction bs arbitrary: ms)
  case Nil
  show ?case by simp
next
  case (Cons b bs)
  show ?case
    using Cons [of "overdue_push w today ms b"] overdue_push_append [of w today ms b]
    by simp
qed

lemma fetchOverdueMessages_messages:
  "faults w SelectBookings = NoFault \<Longrightarrow>
   overdueMessages (fetchOverdueMessages u w) =
     concat (map (overdue_push w (now w) [])
       (filter (\<lambda>b. user_id b = u \<and> (case remaining_payments b of None \<Rightarrow> False | Some r \<Rightarrow> 0 < r))
          (bookings w)))"
  by (simp add: fetchOverdueMessages_def select_bookings_def Let_def foldl_overdue_push)

lemma overdue_push_length: "length (overdue_push w today [] b) \<le> 1"
  by (simp add: overdue_push_def Let_def split: option.splits)

lemma overdue_push_one:
  "(length (overdue_push w today [] b) = 1) =
     (\<exists>s e. end_date b = Some s \<and> s \<noteq> [] \<and> Date_parse w s = Some e \<and>
            0 < \<lceil>real_of_int (today - e) / (1000 * 60 * 60 * 24)\<rceil>)"
  by (auto simp: overdue_push_def Let_def split: option.splits)

lemma overdue_push_fields:
  assumes that: "m \<in> set (overdue_push w today [] b)"
  shows "\<exists>s e. end_date b = Some s \<and> Date_parse w s = Some e \<and>
       days_overdue m = Some \<lceil>real_of_int (today - e) / (1000 * 60 * 60 * 24)\<rceil> \<and>
       amount m = remaining_payments b \<and> \<not> is_read m"
proof (cases "end_date b")
  case None
  then show ?thesis using that by (simp add: overdue_push_def)
next
  case (Some s)
  show ?thesis
  proof (cases "Date_parse w s")
    case None
    then show ?thesis using that \<open>end_date b = Some s\<close>
      by (simp add: overdue_push_def split: if_splits)
  next
    case (Some e)
    then show ?thesis using that \<open>end_date b = Some s\<close>
      by (simp add: overdue_push_def Let_def split: if_splits)
  qed
qed

lemma overdue_push_five_days:
  "end_date b = Some s \<Longrightarrow> s \<noteq> [] \<Longrightarrow> Date_parse w s = Some (today - 5 * (1000 * 60 * 60 * 24)) \<Longrightarrow>
   remaining_payments b = Some 500000 \<Longrightarrow>
   \<exists>m. overdue_push w today [] b = [m] \<and> days_overdue m = Some 5 \<and> amount m = Some 500000"
  by (simp add: overdue_push_def Let_def)

lemma overdue_push_tomorrow:
  "end_date b = Some s \<Longrightarrow> Date_parse w s = Some (today + 1000 * 60 * 60 * 24) \<Longrightarrow>
   overdue_push w today [] b = []"
  by (simp add: overdue_push_def Let_def)

text \<open>
  An end date that lies five days and a part of a day before the clock gives six days,
  as \<open>Math.ceil\<close> rounds the part of a day up.
\<close>

lemma ceiling_partial_day:
  fixes k :: int
  assumes "0 < k" and "k \<le> 1000 * 60 * 60 * 24"
  shows "\<lceil>real_of_int (5 * (1000 * 60 * 60 * 24) + k) / (1000 * 60 * 60 * 24)\<rceil> = 6"
proof (rule ceiling_unique)
  show "real_of_int 6 - 1 < real_of_int (5 * (1000 * 60 * 60 * 24) + k) / (1000 * 60 * 60 * 24)"
    using assms by (simp add: field_simps)
  show "real_of_int (5 * (1000 * 60 * 60 * 24) + k) / (1000 * 60 * 60 * 24) \<le> real_of_int 6"
    using assms by (simp add: field_simps)
qed

lemma overdue_push_partial_day:
  assumes "end_date b = Some s" and "s \<noteq> []"
    and "Date_parse w s = Some (today - (5 * (1000 * 60 * 60 * 24) + k))"
    and "0 < k" and "k \<le> 1000 * 60 * 60 * 24"
  shows "\<exists>m. overdue_push w today [] b = [m] \<and> days_overdue m = Some 6"
proof -
  have "today - (today - (5 * (1000 * 60 * 60 * 24) + k)) = 5 * (1000 * 60 * 60 * 24) + k"
    by simp
  then have "\<lceil>real_of_int (today - (today - (5 * (1000 * 60 * 60 * 24) + k)))
               / (1000 * 60 * 60 * 24)\<rceil> = 6"
    using ceiling_partial_day [OF assms(4,5)] by (simp only:)
  then show ?thesis
    using assms by (simp add: overdue_push_def Let_def)
qed

text \<open>
  C4. The overdue messages of a fetch are those of the user's bookings with a positive
  remaining payment, booking by booking. A booking gives at most one message, and gives
  one exactly when it has an end date (not null, not empty, and a valid date) with
  \<open>ceil((now - endDate) / 1 day) > 0\<close>; the message carries that ceiling as
  \<open>days_overdue\<close> and the remaining payment as \<open>amount\<close>. An end date five days
  before \<open>today\<close> with 500000 remaining gives one message with \<open>days_overdue = 5\<close> and
  \<open>amount = 500000\<close>; an end date one day after \<open>today\<close> gives none. Here \<open>today\<close> is
  the instant \<open>new Date()\<close> of the source, and the arithmetic is that of the reals.
\<close>

theorem overdue_derivation:
  "(faults w SelectBookings = NoFault \<longrightarrow>
      overdueMessages (fetchOverdueMessages u w) =
        concat (map (overdue_push w (now w) [])
          (filter (\<lambda>b. user_id b = u \<and>
                       (case remaining_payments b of None \<Rightarrow> False | Some r \<Rightarrow> 0 < r))
             (bookings w))))
   \<and> length (overdue_push w today [] b) \<le> 1
   \<and> ((length (overdue_push w today [] b) = 1) =
        (\<exists>s e. end_date b = Some s \<and> s \<noteq> [] \<and> Date_parse w s = Some e \<and>
               0 < \<lceil>real_of_int (today - e) / (1000 * 60 * 60 * 24)\<rceil>))
   \<and> (\<forall>m \<in> set (overdue_push w today [] b).
        \<exists>s e. end_date b = Some s \<and> Date_parse w s = Some e \<and>
          days_overdue m = Some \<lceil>real_of_int (today - e) / (1000 * 60 * 60 * 24)\<rceil> \<and>
          amount m = remaining_payments b \<and> \<not> is_read m)
   \<and> (end_date b = Some s \<and> s \<noteq> [] \<and>
      Date_parse w s = Some (today - 5 * (1000 * 60 * 60 * 24)) \<and>
      remaining_payments b = Some 500000 \<longrightarrow>
        (\<exists>m. overdue_push w today [] b = [m] \<and> days_overdue m = Some 5 \<and>
             amount m = Some 500000))
   \<and> (end_date b = Some s \<and> Date_parse w s = Some (today + 1000 * 60 * 60 * 24) \<longrightarrow>
        overdue_push w today [] b = [])"
  using fetchOverdueMessages_messages [of w u] overdue_push_length [of w today b]
    overdue_push_one [of w today b] overdue_push_fields [of _ w today b]
    overdue_push_five_days [of b s w today] overdue_push_tomorrow [of b s w today]
  by blast

theorem overdue_derivation_witness:
  "overdueMessages (fetchOverdueMessages ''drv-1'' world0) =
     concat (map (overdue_push world0 (now world0) []) [booking_late, booking_running])
   \<and> (\<exists>m. overdue_push world0 (now world0) [] booking_late = [m] \<and>
          days_overdue m = Some 5 \<and> amount m = Some 500000)
   \<and> overdue_push world0 (now world0) [] booking_running = []"
  using overdue_derivation [of world0 "''drv-1''" "now world0" booking_late "''2025-02-24''"]
    overdue_derivation [of world0 "''drv-1''" "now world0" booking_running "''2025-03-02''"]
  by (simp add: world0_def booking_late_def booking_running_def)

section \<open>The unread counter\<close>

lemma unreadCount_fetchOverdueMessages:
  "0 \<le> unreadCount w \<Longrightarrow> 0 \<le> unreadCount (fetchOverdueMessages u w)"
  by (simp add: fetchOverdueMessages_def Let_def split: outcome.splits option.splits prod.splits)

lemma unreadCount_markMessageAsRead: "0 \<le> unreadCount (markMessageAsRead m w)"
  by (simp add: markMessageAsRead_def)

lemma unreadCount_markMessagesAsRead:
  "0 \<le> unreadCount w \<Longrightarrow> 0 \<le> unreadCount (markMessagesAsRead ms w)"
  unfolding markMessagesAsRead_def
  by (induction ms arbitrary: w) (simp_all add: unreadCount_markMessageAsRead)

lemma markMessageAsRead_same_list:
  "\<forall>msg \<in> set (overdueMessages w). msg_id msg = m \<longrightarrow> is_read msg \<Longrightarrow>
   overdueMessages (markMessageAsRead m w) = overdueMessages w"
  by (simp add: markMessageAsRead_def map_idI)

text \<open>
  C9. The unread counter is not negative after \<open>markMessageAsRead\<close>; it stays
  non-negative through any sequence of such calls, on whatever ids, and through a fetch
  of the overdue messages; and marking an id whose messages are all read already (or
  that no message has) leaves the list of messages as it was.
\<close>

theorem unread_counter_never_negative:
  "0 \<le> unreadCount (markMessageAsRead m w)
   \<and> (0 \<le> unreadCount w \<longrightarrow> 0 \<le> unreadCount (markMessagesAsRead ms w))
   \<and> (0 \<le> unreadCount w \<longrightarrow> 0 \<le> unreadCount (fetchOverdueMessages u w))
   \<and> ((\<forall>msg \<in> set (overdueMessages w). msg_id msg = m \<longrightarrow> is_read msg) \<longrightarrow>
        overdueMessages (markMessageAsRead m w) = overdueMessages w)"
  using unreadCount_markMessageAsRead [of m w] unreadCount_markMessagesAsRead [of w ms]
    unreadCount_fetchOverdueMessages [of w u] markMessageAsRead_same_list [of w m]
  by blast

lemma world0_overdue:
  "overdueMessages (fetchOverdueMessages ''drv-1'' world0) =
    [\<lparr> msg_id = ''overdue-41'',
       message = ''Pembayaran untuk booking BK-41 telah jatuh tempo 5 hari. Sisa pembayaran: Rp 500000'',
       created_at = ''2025-02-24'', is_read = False, msg_type = ''overdue'',
       amount = Some 500000, days_overdue = Some 5 \<rparr>]"
  "unreadCount (fetchOverdueMessages ''drv-1'' world0) = 1"
  by (simp_all add: fetchOverdueMessages_def select_bookings_def world0_def booking_late_def
      booking_running_def overdue_push_def Let_def show_int_def)

theorem unread_counter_never_negative_witness:
  "0 \<le> unreadCount (markMessagesAsRead [''overdue-41'', ''overdue-41'', ''overdue-99'']
                       (fetchOverdueMessages ''drv-1'' world0))
   \<and> unreadCount (markMessagesAsRead [''overdue-41'', ''overdue-41'', ''overdue-99'']
                       (fetchOverdueMessages ''drv-1'' world0)) = 0
   \<and> overdueMessages (markMessageAsRead ''overdue-41''
         (markMessageAsRead ''overdue-41'' (fetchOverdueMessages ''drv-1'' world0)))
       = overdueMessages (markMessageAsRead ''overdue-41'' (fetchOverdueMessages ''drv-1'' world0))
   \<and> overdueMessages (markMessageAsRead ''overdue-99'' (fetchOverdueMessages ''drv-1'' world0))
       = overdueMessages (fetchOverdueMessages ''drv-1'' world0)"
  using unread_counter_never_negative [of "''overdue-41''"
      "markMessageAsRead ''overdue-41'' (fetchOverdueMessages ''drv-1'' world0)"
      "[]" "''drv-1''"]
    unread_counter_never_negative [of "''overdue-99''" "fetchOverdueMessages ''drv-1'' world0"
      "[''overdue-41'', ''overdue-41'', ''overdue-99'']" "''drv-1''"]
  by (simp add: world0_overdue markMessageAsRead_def markMessagesAsRead_def)

section \<open>Fetching the transfers\<close>

lemma fetchAirportTransfers_frame:
  "airport_transfer (fetchAirportTransfers w) = airport_transfer w"
  "faults (fetchAirportTransfers w) = faults w"
  "session_user (fetchAirportTransfers w) = session_user w"
  "drivers (fetchAirportTransfers w) = drivers w"
  "historyMode (fetchAirportTransfers w) = historyMode w"
  "loading (fetchAirportTransfers w) = False"
  by (simp_all add: fetchAirportTransfers_def Let_def fetchOverdueMessages_frame setTransfers_def
      split: outcome.splits option.splits prod.splits)

lemma fetchAirportTransfers_effects:
  "\<exists>xs. effects (fetchAirportTransfers w) = effects w @ xs \<and> toasts_of xs = [] \<and>
        (\<forall>rows \<in> set (lists_set xs). \<forall>t \<in> set rows.
            status t \<in> set (if historyMode w then [''completed'', ''canceled'']
                            else [''pending'', ''confirmed'']))"
  by (auto simp: fetchAirportTransfers_def Let_def fetchOverdueMessages_frame setTransfers_def
      select_airport_transfer_def
      split: outcome.splits option.splits prod.splits fault.splits)

lemma fetchAirportTransfers_resolved:
  assumes "faults w GetUser = NoFault" and "session_user w = Some u"
    and "faults w SelectDrivers = NoFault"
    and "map drv_id (filter (\<lambda>d. ilike (email u) (drv_email d)) (drivers w)) = [d]"
    and "faults w SelectTransfers = NoFault"
  shows "fetchAirportTransfers w =
     (let rows = filter (\<lambda>r. driver_id r = Some d \<and>
                     status r \<in> set (if historyMode w then [''completed'', ''canceled'']
                                     else [''pending'', ''confirmed'']))
                   (airport_transfer w);
          w2 = setTransfers (\<lambda>prev. rows) (w\<lparr> loading := True, error := None, driverId := Some d \<rparr>)
      in (fetchOverdueMessages d
            (if rows = [] then
               w2\<lparr> error := Some (if historyMode w then ''No airport transfer history found.''
                                    else ''No pending transfers assigned to you.'') \<rparr>
             else w2))\<lparr> loading := False \<rparr>)"
  using assms
  by (simp add: fetchAirportTransfers_def Let_def getUser_def drivers_ilike_maybeSingle_def
      select_airport_transfer_def setTransfers_def)

lemma overdue_push_cong:
  "Date_parse v = Date_parse w \<Longrightarrow> toLocaleString v = toLocaleString w \<Longrightarrow>
   overdue_push v = overdue_push w"
  by (intro ext) (simp add: overdue_push_def cong: option.case_cong if_cong)

lemma fetchOverdueMessages_cong:
  assumes "faults v = faults w" and "bookings v = bookings w" and "now v = now w"
    and "Date_parse v = Date_parse w" and "toLocaleString v = toLocaleString w"
    and "faults w SelectBookings = NoFault"
  shows "overdueMessages (fetchOverdueMessages d v) = overdueMessages (fetchOverdueMessages d w)"
    and "unreadCount (fetchOverdueMessages d v) = unreadCount (fetchOverdueMessages d w)"
  by (simp_all add: fetchOverdueMessages_def select_bookings_def Let_def assms(1-3,6)
      overdue_push_cong [OF assms(4,5)])

lemma fetchAirportTransfers_empty:
  assumes "faults w GetUser = NoFault" and "session_user w = Some u"
    and "faults w SelectDrivers = NoFault"
    and "map drv_id (filter (\<lambda>d. ilike (email u) (drv_email d)) (drivers w)) = [d]"
    and "faults w SelectTransfers = NoFault"
    and "filter (\<lambda>r. driver_id r = Some d \<and>
                     status r \<in> set (if historyMode w then [''completed'', ''canceled'']
                                     else [''pending'', ''confirmed'']))
                (airport_transfer w) = []"
    and "faults w SelectBookings = NoFault"
  shows "transfers (fetchAirportTransfers w) = []"
    and "new_effects w (fetchAirportTransfers w) = [SetTransfers []]"
    and "loading (fetchAirportTransfers w) = False"
    and "driverId (fetchAirportTransfers w) = Some d"
    and "error (fetchAirportTransfers w) =
           Some (if historyMode w then ''No airport transfer history found.''
                 else ''No pending transfers assigned to you.'')"
    and "overdueMessages (fetchAirportTransfers w) = overdueMessages (fetchOverdueMessages d w)"
    and "unreadCount (fetchAirportTransfers w) = unreadCount (fetchOverdueMessages d w)"
proof -
  let ?v = "(setTransfers (\<lambda>prev. [])
               (w\<lparr> loading := True, error := None, driverId := Some d \<rparr>))
             \<lparr> error := Some (if historyMode w then ''No airport transfer history found.''
                              else ''No pending transfers assigned to you.'') \<rparr>"
  have eq: "fetchAirportTransfers w = (fetchOverdueMessages d ?v)\<lparr> loading := False \<rparr>"
    using assms(6) by (simp add: fetchAirportTransfers_resolved [OF assms(1-5)] Let_def)
  have same: "faults ?v = faults w" "bookings ?v = bookings w" "now ?v = now w"
    "Date_parse ?v = Date_parse w" "toLocaleString ?v = toLocaleString w"
    by (simp_all add: setTransfers_def)
  show "transfers (fetchAirportTransfers w) = []"
    by (simp add: eq fetchOverdueMessages_frame setTransfers_def)
  show "new_effects w (fetchAirportTransfers w) = [SetTransfers []]"
    by (simp add: eq fetchOverdueMessages_frame setTransfers_def new_effects_def)
  show "loading (fetchAirportTransfers w) = False"
    by (simp add: eq)
  show "driverId (fetchAirportTransfers w) = Some d"
    by (simp add: eq fetchOverdueMessages_frame setTransfers_def)
  show "error (fetchAirportTransfers w) =
           Some (if historyMode w then ''No airport transfer history found.''
                 else ''No pending transfers assigned to you.'')"
    by (simp add: eq fetchOverdueMessages_frame setTransfers_def)
  show "overdueMessages (fetchAirportTransfers w) = overdueMessages (fetchOverdueMessages d w)"
    using fetchOverdueMessages_cong(1) [OF same assms(7), of d] by (simp add: eq)
  show "unreadCount (fetchAirportTransfers w) = unreadCount (fetchOverdueMessages d w)"
    using fetchOverdueMessages_cong(2) [OF same assms(7), of d] by (simp add: eq)
qed

lemma fetchAirportTransfers_rows:
  assumes "faults w GetUser = NoFault" and "session_user w = Some u"
    and "faults w SelectDrivers = NoFault"
    and "map drv_id (filter (\<lambda>d. ilike (email u) (drv_email d)) (drivers w)) = [d]"
    and "faults w SelectTransfers = NoFault"
  shows "transfers (fetchAirportTransfers w) =
           filter (\<lambda>r. driver_id r = Some d \<and>
                     status r \<in> set (if historyMode w then [''completed'', ''canceled'']
                                     else [''pending'', ''confirmed'']))
             (airport_transfer w)"
    and "new_effects w (fetchAirportTransfers w) = [SetTransfers (transfers (fetchAirportTransfers w))]"
  by (simp_all add: fetchAirportTransfers_resolved [OF assms] Let_def
      fetchOverdueMessages_frame setTransfers_def new_effects_def)

lemma fetchAirportTransfers_lists:
  assumes "rows \<in> set (lists_set (new_effects w (fetchAirportTransfers w)))" and "t \<in> set rows"
  shows "status t \<in> set (if historyMode w then [''completed'', ''canceled'']
                          else [''pending'', ''confirmed''])"
proof -
  obtain xs where xs: "effects (fetchAirportTransfers w) = effects w @ xs"
    and ok: "\<forall>rows \<in> set (lists_set xs). \<forall>t \<in> set rows.
            status t \<in> set (if historyMode w then [''completed'', ''canceled'']
                            else [''pending'', ''confirmed''])"
    using fetchAirportTransfers_effects [of w] by blast
  have "new_effects w (fetchAirportTransfers w) = xs"
    by (simp add: new_effects_def xs)
  then show ?thesis using assms ok by blast
qed

text \<open>
  C3. Every list that a fetch gives to \<open>setTransfers\<close> holds no \<open>completed\<close> and no
  \<open>canceled\<close> transfer when \<open>historyMode\<close> is off, and no \<open>pending\<close> and no
  \<open>confirmed\<close> one when it is on. When the driver is resolved and the query is
  answered, the list is the rows of that driver in the mode's status group; when it is
  empty the fetch is not cut short: the list is set to the empty list, a notice is put
  in \<open>error\<close>, the overdue messages are fetched and \<open>loading\<close> ends.
\<close>

theorem fetched_list_respects_mode:
  "(\<not> historyMode w \<longrightarrow>
      (\<forall>rows \<in> set (lists_set (new_effects w (fetchAirportTransfers w))). \<forall>t \<in> set rows.
          status t \<noteq> ''completed'' \<and> status t \<noteq> ''canceled''))
   \<and> (historyMode w \<longrightarrow>
      (\<forall>rows \<in> set (lists_set (new_effects w (fetchAirportTransfers w))). \<forall>t \<in> set rows.
          status t \<noteq> ''pending'' \<and> status t \<noteq> ''confirmed''))
   \<and> (faults w GetUser = NoFault \<and> session_user w = Some u \<and> faults w SelectDrivers = NoFault \<and>
      map drv_id (filter (\<lambda>d. ilike (email u) (drv_email d)) (drivers w)) = [d] \<and>
      faults w SelectTransfers = NoFault \<longrightarrow>
        transfers (fetchAirportTransfers w) =
          filter (\<lambda>r. driver_id r = Some d \<and>
                    status r \<in> set (if historyMode w then [''completed'', ''canceled'']
                                    else [''pending'', ''confirmed'']))
            (airport_transfer w) \<and>
        new_effects w (fetchAirportTransfers w) =
          [SetTransfers (transfers (fetchAirportTransfers w))])
   \<and> (faults w GetUser = NoFault \<and> session_user w = Some u \<and> faults w SelectDrivers = NoFault \<and>
      map drv_id (filter (\<lambda>d. ilike (email u) (drv_email d)) (drivers w)) = [d] \<and>
      faults w SelectTransfers = NoFault \<and>
      filter (\<lambda>r. driver_id r = Some d \<and>
                status r \<in> set (if historyMode w then [''completed'', ''canceled'']
                                else [''pending'', ''confirmed'']))
        (airport_transfer w) = [] \<and>
      faults w SelectBookings = NoFault \<longrightarrow>
        transfers (fetchAirportTransfers w) = [] \<and>
        new_effects w (fetchAirportTransfers w) = [SetTransfers []] \<and>
        loading (fetchAirportTransfers w) = False \<and>
        driverId (fetchAirportTransfers w) = Some d \<and>
        error (fetchAirportTransfers w) =
          Some (if historyMode w then ''No airport transfer history found.''
                else ''No pending transfers assigned to you.'') \<and>
        overdueMessages (fetchAirportTransfers w) = overdueMessages (fetchOverdueMessages d w) \<and>
        unreadCount (fetchAirportTransfers w) = unreadCount (fetchOverdueMessages d w))"
proof -
  have active: "\<not> historyMode w \<longrightarrow>
      (\<forall>rows \<in> set (lists_set (new_effects w (fetchAirportTransfers w))). \<forall>t \<in> set rows.
          status t \<noteq> ''completed'' \<and> status t \<noteq> ''canceled'')"
  proof (intro impI ballI)
    fix rows t
    assume "\<not> historyMode w" "rows \<in> set (lists_set (new_effects w (fetchAirportTransfers w)))"
      "t \<in> set rows"
    then have "status t = ''pending'' \<or> status t = ''confirmed''"
      using fetchAirportTransfers_lists [of rows w t] by simp
    then show "status t \<noteq> ''completed'' \<and> status t \<noteq> ''canceled''" by auto
  qed
  have history: "historyMode w \<longrightarrow>
      (\<forall>rows \<in> set (lists_set (new_effects w (fetchAirportTransfers w))). \<forall>t \<in> set rows.
          status t \<noteq> ''pending'' \<and> status t \<noteq> ''confirmed'')"
  proof (intro impI ballI)
    fix rows t
    assume "historyMode w" "rows \<in> set (lists_set (new_effects w (fetchAirportTransfers w)))"
      "t \<in> set rows"
    then have "status t = ''completed'' \<or> status t = ''canceled''"
      using fetchAirportTransfers_lists [of rows w t] by simp
    then show "status t \<noteq> ''pending'' \<and> status t \<noteq> ''confirmed''" by auto
  qed
  have resolved: "faults w GetUser = NoFault \<and> session_user w = Some u \<and>
      faults w SelectDrivers = NoFault \<and>
      map drv_id (filter (\<lambda>d. ilike (email u) (drv_email d)) (drivers w)) = [d] \<and>
      faults w SelectTransfers = NoFault \<longrightarrow>
        transfers (fetchAirportTransfers w) =
          filter (\<lambda>r. driver_id r = Some d \<and>
                    status r \<in> set (if historyMode w then [''completed'', ''canceled'']
                                    else [''pending'', ''confirmed'']))
            (airport_transfer w) \<and>
        new_effects w (fetchAirportTransfers w) =
          [SetTransfers (transfers (fetchAirportTransfers w))]"
  proof (intro impI, elim conjE)
    assume h: "faults w GetUser = NoFault" "session_user w = Some u"
      "faults w SelectDrivers = NoFault"
      "map drv_id (filter (\<lambda>d. ilike (email u) (drv_email d)) (drivers w)) = [d]"
      "faults w SelectTransfers = NoFault"
    show "transfers (fetchAirportTransfers w) =
          filter (\<lambda>r. driver_id r = Some d \<and>
                    status r \<in> set (if historyMode w then [''completed'', ''canceled'']
                                    else [''pending'', ''confirmed'']))
            (airport_transfer w) \<and>
        new_effects w (fetchAirportTransfers w) =
          [SetTransfers (transfers (fetchAirportTransfers w))]"
      by (intro conjI) (rule fetchAirportTransfers_rows [OF h])+
  qed
  have empty: "faults w GetUser = NoFault \<and> session_user w = Some u \<and>
      faults w SelectDrivers = NoFault \<and>
      map drv_id (filter (\<lambda>d. ilike (email u) (drv_email d)) (drivers w)) = [d] \<and>
      faults w SelectTransfers = NoFault \<and>
      filter (\<lambda>r. driver_id r = Some d \<and>
                status r \<in> set (if historyMode w then [''completed'', ''canceled'']
                                else [''pending'', ''confirmed'']))
        (airport_transfer w) = [] \<and>
      faults w SelectBookings = NoFault \<longrightarrow>
        transfers (fetchAirportTransfers w) = [] \<and>
        new_effects w (fetchAirportTransfers w) = [SetTransfers []] \<and>
        loading (fetchAirportTransfers w) = False \<and>
        driverId (fetchAirportTransfers w) = Some d \<and>
        error (fetchAirportTransfers w) =
          Some (if historyMode w then ''No airport transfer history found.''
                else ''No pending transfers assigned to you.'') \<and>
        overdueMessages (fetchAirportTransfers w) = overdueMessages (fetchOverdueMessages d w) \<and>
        unreadCount (fetchAirportTransfers w) = unreadCount (fetchOverdueMessages d w)"
  proof (intro impI, elim conjE)
    assume h: "faults w GetUser = NoFault" "session_user w = Some u"
      "faults w SelectDrivers = NoFault"
      "map drv_id (filter (\<lambda>d. ilike (email u) (drv_email d)) (drivers w)) = [d]"
      "faults w SelectTransfers = NoFault"
      "filter (\<lambda>r. driver_id r = Some d \<and>
                status r \<in> set (if historyMode w then [''completed'', ''canceled'']
                                else [''pending'', ''confirmed'']))
        (airport_transfer w) = []"
      "faults w SelectBookings = NoFault"
    show "transfers (fetchAirportTransfers w) = [] \<and>
        new_effects w (fetchAirportTransfers w) = [SetTransfers []] \<and>
        loading (fetchAirportTransfers w) = False \<and>
        driverId (fetchAirportTransfers w) = Some d \<and>
        error (fetchAirportTransfers w) =
          Some (if historyMode w then ''No airport transfer history found.''
                else ''No pending transfers assigned to you.'') \<and>
        overdueMessages (fetchAirportTransfers w) = overdueMessages (fetchOverdueMessages d w) \<and>
        unreadCount (fetchAirportTransfers w) = unreadCount (fetchOverdueMessages d w)"
      by (intro conjI) (rule fetchAirportTransfers_empty [OF h])+
  qed
  show ?thesis
    by (intro conjI) (rule active history resolved empty)+
qed

theorem fetched_list_respects_mode_witness:
  "new_effects world0 (fetchAirportTransfers world0) = [SetTransfers [transfer7]]
   \<and> status transfer7 = ''pending''
   \<and> transfers (fetchAirportTransfers (world0\<lparr> historyMode := True \<rparr>)) = [transfer8]
   \<and> status transfer8 = ''completed''
   \<and> transfers (fetchAirportTransfers (world0\<lparr> airport_transfer := [] \<rparr>)) = []
   \<and> error (fetchAirportTransfers (world0\<lparr> airport_transfer := [] \<rparr>)) =
        Some ''No pending transfers assigned to you.''
   \<and> unreadCount (fetchAirportTransfers (world0\<lparr> airport_transfer := [] \<rparr>)) = 1"
  using fetched_list_respects_mode [of world0 "\<lparr> email = ''driver@example.com'' \<rparr>" "''drv-1''"]
    fetched_list_respects_mode [of "world0\<lparr> historyMode := True \<rparr>"
      "\<lparr> email = ''driver@example.com'' \<rparr>" "''drv-1''"]
    fetched_list_respects_mode [of "world0\<lparr> airport_transfer := [] \<rparr>"
      "\<lparr> email = ''driver@example.com'' \<rparr>" "''drv-1''"]
  by (simp add: world0_def ilike_def lower_def transfer7_def transfer8_def
      fetchOverdueMessages_def select_bookings_def booking_late_def
      booking_running_def overdue_push_def Let_def)

section \<open>Accepting a transfer\<close>

lemma single_cases:
  "(\<exists>x. xs = [x] \<and> single xs = (Some x, None)) \<or>
   (length xs \<noteq> 1 \<and> single xs = (None, Some ''JSON object requested, multiple (or no) rows returned''))"
  by (cases xs rule: single.cases) simp_all

lemma handleAccept_rejected:
  assumes "faults w GetUser \<noteq> NoFault \<or> session_user w = None \<or>
     faults w SelectDrivers \<noteq> NoFault \<or>
     (\<exists>u. session_user w = Some u \<and>
          length (filter (\<lambda>d. drv_email d = email u) (drivers w)) \<noteq> 1) \<or>
     faults w UpdateTransfer \<noteq> NoFault"
  shows "handleAccept tid w = w\<lparr> effects := effects (handleAccept tid w) \<rparr> \<and>
         lists_set (new_effects w (handleAccept tid w)) = [] \<and>
         toasts_of (new_effects w (handleAccept tid w)) \<in>
           set [[destructive ''Driver not authenticated.''],
                [destructive ''Driver ID not found.''],
                [destructive ''Failed to accept the transfer.''],
                [destructive ''Something went wrong while accepting the transfer.'']]"
proof (cases "faults w GetUser")
  case NoFault
  note g = this
  show ?thesis
  proof (cases "session_user w")
    case None
    then show ?thesis using g
      by (simp add: handleAccept_def getUser_def toast_def new_effects_def)
  next
    case (Some u)
    note su = this
    show ?thesis
    proof (cases "faults w SelectDrivers")
      case NoFault
      note sd = this
      let ?rows = "map drv_id (filter (\<lambda>d. drv_email d = email u) (drivers w))"
      from single_cases [of ?rows] show ?thesis
      proof
        assume "\<exists>x. ?rows = [x] \<and> single ?rows = (Some x, None)"
        then obtain x where x: "?rows = [x]" "single ?rows = (Some x, None)" by (elim exE conjE)
        then have "length (filter (\<lambda>d. drv_email d = email u) (drivers w)) = 1"
          using length_map [of drv_id "filter (\<lambda>d. drv_email d = email u) (drivers w)"] by simp
        then have upd: "faults w UpdateTransfer \<noteq> NoFault"
          using assms g su sd by auto
        show ?thesis
          using g su sd x(2) upd
          by (cases "faults w UpdateTransfer")
             (simp_all add: handleAccept_def getUser_def drivers_eq_single_def
               update_airport_transfer_def toast_def new_effects_def Let_def)
      next
        assume "length ?rows \<noteq> 1 \<and>
          single ?rows = (None, Some ''JSON object requested, multiple (or no) rows returned'')"
        then show ?thesis using g su sd
          by (simp add: handleAccept_def getUser_def drivers_eq_single_def toast_def new_effects_def)
      qed
    next
      case (ErrorReply e)
      then show ?thesis using g su
        by (simp add: handleAccept_def getUser_def drivers_eq_single_def toast_def new_effects_def)
    next
      case (Throw m)
      then show ?thesis using g su
        by (simp add: handleAccept_def getUser_def drivers_eq_single_def toast_def new_effects_def)
    qed
  qed
next
  case (ErrorReply e)
  then show ?thesis by (simp add: handleAccept_def getUser_def toast_def new_effects_def)
next
  case (Throw m)
  then show ?thesis by (simp add: handleAccept_def getUser_def toast_def new_effects_def)
qed

lemma update_rows:
  "(\<lambda>r. if tr_id r = tid
        then apply_payload \<lparr> payload_status = s, payload_driver_id = Some d \<rparr> r else r)
    = (\<lambda>r. if tr_id r = tid then r\<lparr> status := s, driver_id := Some d \<rparr> else r)"
  "(\<lambda>r. if tr_id r = tid
        then apply_payload \<lparr> payload_status = s, payload_driver_id = None \<rparr> r else r)
    = (\<lambda>r. if tr_id r = tid then r\<lparr> status := s \<rparr> else r)"
  by (rule ext, simp add: apply_payload_def)+

lemma handleAccept_accepted:
  assumes "faults w GetUser = NoFault" and "session_user w = Some u"
    and "faults w SelectDrivers = NoFault"
    and "map drv_id (filter (\<lambda>d. drv_email d = email u) (drivers w)) = [d]"
    and "faults w UpdateTransfer = NoFault"
  shows "handleAccept tid w =
     fetchAirportTransfers
       (toast \<lparr> title = ''Success'', description = ''Transfer accepted and driver assigned.'',
                variant = None \<rparr>
          (setTransfers
             (map (\<lambda>item. if tr_id item = tid
                           then item\<lparr> status := ''confirmed'', driver_id := Some d \<rparr> else item))
             (w\<lparr> effects := effects w @
                     [Update tid \<lparr> payload_status = ''confirmed'', payload_driver_id = Some d \<rparr>],
                  airport_transfer :=
                    map (\<lambda>r. if tr_id r = tid
                              then r\<lparr> status := ''confirmed'', driver_id := Some d \<rparr> else r)
                      (airport_transfer w) \<rparr>)))"
  using assms
  by (simp add: handleAccept_def getUser_def drivers_eq_single_def update_airport_transfer_def
      update_rows Let_def)

lemma take_new_effects:
  assumes "effects v = effects w @ es"
  shows "take (length es) (new_effects w (fetchAirportTransfers v)) = es"
    and "toasts_of (new_effects w (fetchAirportTransfers v)) = toasts_of es"
proof -
  obtain xs where xs: "effects (fetchAirportTransfers v) = effects v @ xs" "toasts_of xs = []"
    using fetchAirportTransfers_effects [of v] by blast
  have app: "toasts_of (as @ bs) = toasts_of as @ toasts_of bs" for as bs
    by (induction as rule: toasts_of.induct) simp_all
  have "new_effects w (fetchAirportTransfers v) = es @ xs"
    by (simp add: new_effects_def xs assms)
  then show "take (length es) (new_effects w (fetchAirportTransfers v)) = es"
    and "toasts_of (new_effects w (fetchAirportTransfers v)) = toasts_of es"
    by (simp_all add: app xs)
qed

text \<open>
  When the session has a user, exactly one driver row has the user's email letter for
  letter and the backend accepts the update, \<open>handleAccept\<close> sends the payload
  \<open>{status: confirmed, driver_id}\<close> with the resolved driver's id for that transfer,
  then sets the list to the one in which every entry with that id has status
  \<open>confirmed\<close> and that driver (a pending entry among them), then shows the success
  toast; and the rows of the table with that id are confirmed and assigned to the driver.
\<close>

lemma handleAccept_exact_email:
  assumes "faults w GetUser = NoFault" and "session_user w = Some u"
    and "faults w SelectDrivers = NoFault"
    and "map drv_id (filter (\<lambda>d. drv_email d = email u) (drivers w)) = [d]"
    and "faults w UpdateTransfer = NoFault"
  shows "take 3 (new_effects w (handleAccept tid w)) =
      [Update tid \<lparr> payload_status = ''confirmed'', payload_driver_id = Some d \<rparr>,
       SetTransfers
         (map (\<lambda>item. if tr_id item = tid
                       then item\<lparr> status := ''confirmed'', driver_id := Some d \<rparr> else item)
            (transfers w)),
       Toast \<lparr> title = ''Success'', description = ''Transfer accepted and driver assigned.'',
               variant = None \<rparr>]
    \<and> (\<forall>t \<in> set (map (\<lambda>item. if tr_id item = tid
                       then item\<lparr> status := ''confirmed'', driver_id := Some d \<rparr> else item)
                    (transfers w)).
          tr_id t = tid \<longrightarrow> status t = ''confirmed'' \<and> driver_id t = Some d)
    \<and> (t \<in> set (transfers w) \<and> tr_id t = tid \<and> status t = ''pending'' \<longrightarrow>
          t\<lparr> status := ''confirmed'', driver_id := Some d \<rparr>
            \<in> set (map (\<lambda>item. if tr_id item = tid
                       then item\<lparr> status := ''confirmed'', driver_id := Some d \<rparr> else item)
                    (transfers w)))
    \<and> airport_transfer (handleAccept tid w) =
         map (\<lambda>r. if tr_id r = tid
                   then r\<lparr> status := ''confirmed'', driver_id := Some d \<rparr> else r)
           (airport_transfer w)"
proof -
  let ?f = "\<lambda>item. if tr_id item = tid
                       then item\<lparr> status := ''confirmed'', driver_id := Some d \<rparr> else item"
  let ?es = "[Update tid \<lparr> payload_status = ''confirmed'', payload_driver_id = Some d \<rparr>,
       SetTransfers (map ?f (transfers w)),
       Toast \<lparr> title = ''Success'', description = ''Transfer accepted and driver assigned.'',
               variant = None \<rparr>]"
  let ?v = "toast \<lparr> title = ''Success'', description = ''Transfer accepted and driver assigned.'',
                variant = None \<rparr>
          (setTransfers (map ?f)
             (w\<lparr> effects := effects w @
                     [Update tid \<lparr> payload_status = ''confirmed'', payload_driver_id = Some d \<rparr>],
                  airport_transfer := map ?f (airport_transfer w) \<rparr>))"
  have eq: "handleAccept tid w = fetchAirportTransfers ?v"
    by (rule handleAccept_accepted [OF assms])
  have ev: "effects ?v = effects w @ ?es"
    by (simp add: toast_def setTransfers_def)
  have len: "length ?es = 3" by simp
  have one: "take 3 (new_effects w (handleAccept tid w)) = ?es"
    using take_new_effects(1) [OF ev] by (simp only: eq len)
  have two: "\<forall>t \<in> set (map ?f (transfers w)).
          tr_id t = tid \<longrightarrow> status t = ''confirmed'' \<and> driver_id t = Some d"
  proof (intro ballI impI)
    fix t
    assume "t \<in> set (map ?f (transfers w))" and tid: "tr_id t = tid"
    then obtain x where x: "t = ?f x" by (auto simp only: set_map image_iff)
    show "status t = ''confirmed'' \<and> driver_id t = Some d"
    proof (cases "tr_id x = tid")
      case True
      then show ?thesis by (simp add: x)
    next
      case False
      then show ?thesis using tid by (simp add: x)
    qed
  qed
  have three: "t \<in> set (transfers w) \<and> tr_id t = tid \<and> status t = ''pending'' \<longrightarrow>
          t\<lparr> status := ''confirmed'', driver_id := Some d \<rparr> \<in> set (map ?f (transfers w))"
  proof (intro impI, elim conjE)
    assume t: "t \<in> set (transfers w)" "tr_id t = tid"
    have "?f t = t\<lparr> status := ''confirmed'', driver_id := Some d \<rparr>"
      using t(2) by simp
    moreover have "?f t \<in> set (map ?f (transfers w))"
      using t(1) by (simp only: set_map image_eqI)
    ultimately show "t\<lparr> status := ''confirmed'', driver_id := Some d \<rparr>
        \<in> set (map ?f (transfers w))"
      by (simp only:)
  qed
  have four: "airport_transfer (handleAccept tid w) = map ?f (airport_transfer w)"
    by (simp add: eq fetchAirportTransfers_frame toast_def setTransfers_def)
  show ?thesis
    by (intro conjI) (rule one two three four)+
qed

lemma handleAccept_exact_email_world0:
  "take 3 (new_effects world0 (handleAccept 7 world0)) =
      [Update 7 \<lparr> payload_status = ''confirmed'', payload_driver_id = Some ''drv-1'' \<rparr>,
       SetTransfers [transfer7\<lparr> status := ''confirmed'', driver_id := Some ''drv-1'' \<rparr>],
       Toast \<lparr> title = ''Success'', description = ''Transfer accepted and driver assigned.'',
               variant = None \<rparr>]
   \<and> airport_transfer (handleAccept 7 world0) =
       [transfer7\<lparr> status := ''confirmed'', driver_id := Some ''drv-1'' \<rparr>, transfer8]"
  using handleAccept_exact_email [of world0 "\<lparr> email = ''driver@example.com'' \<rparr>"
      "''drv-1''" 7 transfer7]
  by (simp add: world0_def transfer7_def transfer8_def)

text \<open>
  C2. When there is no authenticated user, or no single driver row for the session's
  email, or the backend rejects the update (or one of the calls throws),
  \<open>handleAccept\<close> changes nothing but the list of effects: the transfers in memory and
  the table are as before, no list is set, and the one toast shown is a destructive one
  with the error.
\<close>

theorem accept_atomic_on_failure:
  assumes "faults w GetUser \<noteq> NoFault \<or> session_user w = None \<or>
     faults w SelectDrivers \<noteq> NoFault \<or>
     (\<exists>u. session_user w = Some u \<and>
          length (filter (\<lambda>d. drv_email d = email u) (drivers w)) \<noteq> 1) \<or>
     faults w UpdateTransfer \<noteq> NoFault"
  shows "handleAccept tid w = w\<lparr> effects := effects (handleAccept tid w) \<rparr>
    \<and> transfers (handleAccept tid w) = transfers w
    \<and> airport_transfer (handleAccept tid w) = airport_transfer w
    \<and> lists_set (new_effects w (handleAccept tid w)) = []
    \<and> toasts_of (new_effects w (handleAccept tid w)) \<in>
           set [[destructive ''Driver not authenticated.''],
                [destructive ''Driver ID not found.''],
                [destructive ''Failed to accept the transfer.''],
                [destructive ''Something went wrong while accepting the transfer.'']]"
proof -
  note r = handleAccept_rejected [OF assms, of tid]
  have eq: "handleAccept tid w = w\<lparr> effects := effects (handleAccept tid w) \<rparr>"
    by (rule r [THEN conjunct1])
  have "transfers (w\<lparr> effects := effects (handleAccept tid w) \<rparr>) = transfers w"
    by simp
  then have tr: "transfers (handleAccept tid w) = transfers w"
    by (simp only: eq [symmetric])
  have "airport_transfer (w\<lparr> effects := effects (handleAccept tid w) \<rparr>) = airport_transfer w"
    by simp
  then have at: "airport_transfer (handleAccept tid w) = airport_transfer w"
    by (simp only: eq [symmetric])
  show ?thesis
    by (intro conjI) (rule eq tr at r [THEN conjunct2, THEN conjunct1]
        r [THEN conjunct2, THEN conjunct2])+
qed

theorem accept_atomic_on_failure_witness:
  "transfers (handleAccept 7 (world0\<lparr> session_user := None \<rparr>)) = [transfer7]
   \<and> airport_transfer (handleAccept 7 (world0\<lparr> session_user := None \<rparr>)) = [transfer7, transfer8]
   \<and> lists_set (new_effects (world0\<lparr> session_user := None \<rparr>)
         (handleAccept 7 (world0\<lparr> session_user := None \<rparr>))) = []
   \<and> transfers (handleAccept 7 (world0\<lparr> faults := (\<lambda>c. if c = UpdateTransfer
           then ErrorReply ''new row violates row-level security policy'' else NoFault) \<rparr>))
        = [transfer7]"
  using accept_atomic_on_failure [of "world0\<lparr> session_user := None \<rparr>" 7]
    accept_atomic_on_failure [of "world0\<lparr> faults := (\<lambda>c. if c = UpdateTransfer
           then ErrorReply ''new row violates row-level security policy'' else NoFault) \<rparr>" 7]
  by (simp add: world0_def)

section \<open>Completing a transfer\<close>

lemma handleComplete_done:
  assumes "faults w UpdateTransfer = NoFault"
  shows "handleComplete tid w =
     fetchAirportTransfers
       (toast \<lparr> title = ''Transfer Completed'', description = ''Pesanan sudah Selesai'',
                variant = Some ''success'' \<rparr>
          (setTransfers
             (map (\<lambda>item. if tr_id item = tid then item\<lparr> status := ''completed'' \<rparr> else item))
             (w\<lparr> effects := effects w @
                     [Update tid \<lparr> payload_status = ''completed'', payload_driver_id = None \<rparr>],
                  airport_transfer :=
                    map (\<lambda>r. if tr_id r = tid then r\<lparr> status := ''completed'' \<rparr> else r)
                      (airport_transfer w) \<rparr>)))"
  using assms
  by (simp add: handleComplete_def update_airport_transfer_def update_rows Let_def)

lemma complete_rows_twice:
  "map (\<lambda>r. if tr_id r = tid then r\<lparr> status := ''completed'' \<rparr> else r)
     (map (\<lambda>r. if tr_id r = tid then r\<lparr> status := ''completed'' \<rparr> else r) rows)
   = map (\<lambda>r. if tr_id r = tid then r\<lparr> status := ''completed'' \<rparr> else r) rows"
  by (induction rows) simp_all

lemma handleComplete_facts:
  assumes "faults w UpdateTransfer = NoFault"
  shows "airport_transfer (handleComplete tid w) =
           map (\<lambda>r. if tr_id r = tid then r\<lparr> status := ''completed'' \<rparr> else r)
             (airport_transfer w)"
    and "faults (handleComplete tid w) UpdateTransfer = NoFault"
    and "take 1 (new_effects w (handleComplete tid w)) =
           [Update tid \<lparr> payload_status = ''completed'', payload_driver_id = None \<rparr>]"
    and "toasts_of (new_effects w (handleComplete tid w)) =
           [\<lparr> title = ''Transfer Completed'', description = ''Pesanan sudah Selesai'',
              variant = Some ''success'' \<rparr>]"
proof -
  let ?f = "\<lambda>item. if tr_id item = tid then item\<lparr> status := ''completed'' \<rparr> else item"
  let ?t = "\<lparr> title = ''Transfer Completed'', description = ''Pesanan sudah Selesai'',
                variant = Some ''success'' \<rparr>"
  let ?u = "Update tid \<lparr> payload_status = ''completed'', payload_driver_id = None \<rparr>"
  let ?v = "toast ?t (setTransfers (map ?f)
             (w\<lparr> effects := effects w @ [?u],
                  airport_transfer := map ?f (airport_transfer w) \<rparr>))"
  have eq: "handleComplete tid w = fetchAirportTransfers ?v"
    by (rule handleComplete_done [OF assms])
  have ev: "effects ?v = effects w @ [?u, SetTransfers (map ?f (transfers w)), Toast ?t]"
    by (simp add: toast_def setTransfers_def)
  have ev1: "effects ?v = effects w @ ([?u] @ [SetTransfers (map ?f (transfers w)), Toast ?t])"
    by (simp add: ev)
  show "airport_transfer (handleComplete tid w) = map ?f (airport_transfer w)"
    by (simp add: eq fetchAirportTransfers_frame toast_def setTransfers_def)
  show "faults (handleComplete tid w) UpdateTransfer = NoFault"
    by (simp add: eq fetchAirportTransfers_frame toast_def setTransfers_def assms)
  have len: "length [?u, SetTransfers (map ?f (transfers w)), Toast ?t] = 3"
    by simp
  have "take 3 (new_effects w (handleComplete tid w)) =
          [?u, SetTransfers (map ?f (transfers w)), Toast ?t]"
    using take_new_effects(1) [OF ev] by (simp only: eq len)
  then have "take 1 (take 3 (new_effects w (handleComplete tid w))) = [?u]"
    by simp
  then show "take 1 (new_effects w (handleComplete tid w)) = [?u]"
    by simp
  show "toasts_of (new_effects w (handleComplete tid w)) = [?t]"
    using take_new_effects(2) [OF ev] by (simp add: eq)
qed

text \<open>
  C6. Whatever the status of the transfer, \<open>handleComplete\<close> sends the update to
  \<open>completed\<close> first, with no test of the present status. When the backend accepts
  updates, the rows with that id are \<open>completed\<close> afterwards; a second call leaves the
  table as the first one left it, and each of the two calls shows the completion toast
  and no error.
\<close>

theorem complete_unconditional_idempotent:
  assumes "faults w UpdateTransfer = NoFault"
  shows "take 1 (new_effects w (handleComplete tid w)) =
           [Update tid \<lparr> payload_status = ''completed'', payload_driver_id = None \<rparr>]
    \<and> airport_transfer (handleComplete tid w) =
         map (\<lambda>r. if tr_id r = tid then r\<lparr> status := ''completed'' \<rparr> else r)
           (airport_transfer w)
    \<and> (\<forall>r \<in> set (airport_transfer (handleComplete tid w)).
          tr_id r = tid \<longrightarrow> status r = ''completed'')
    \<and> airport_transfer (handleComplete tid (handleComplete tid w)) =
         airport_transfer (handleComplete tid w)
    \<and> toasts_of (new_effects w (handleComplete tid w)) =
         [\<lparr> title = ''Transfer Completed'', description = ''Pesanan sudah Selesai'',
            variant = Some ''success'' \<rparr>]
    \<and> toasts_of (new_effects (handleComplete tid w) (handleComplete tid (handleComplete tid w))) =
         [\<lparr> title = ''Transfer Completed'', description = ''Pesanan sudah Selesai'',
            variant = Some ''success'' \<rparr>]"
proof -
  let ?f = "\<lambda>r. if tr_id r = tid then r\<lparr> status := ''completed'' \<rparr> else r"
  note first = handleComplete_facts [OF assms, of tid]
  note second = handleComplete_facts [OF first(2), of tid]
  have rows: "\<forall>r \<in> set (airport_transfer (handleComplete tid w)).
          tr_id r = tid \<longrightarrow> status r = ''completed''"
  proof (intro ballI impI)
    fix r
    assume "r \<in> set (airport_transfer (handleComplete tid w))" and tid: "tr_id r = tid"
    then have "r \<in> set (map ?f (airport_transfer w))"
      by (simp only: first(1))
    then obtain x where x: "r = ?f x" by (auto simp only: set_map image_iff)
    show "status r = ''completed''"
    proof (cases "tr_id x = tid")
      case True
      then show ?thesis by (simp add: x)
    next
      case False
      then show ?thesis using tid by (simp add: x)
    qed
  qed
  have again: "airport_transfer (handleComplete tid (handleComplete tid w)) =
         airport_transfer (handleComplete tid w)"
    by (simp only: second(1) first(1) complete_rows_twice)
  show ?thesis
    by (intro conjI) (rule first(3) first(1) rows again first(4) second(4))+
qed

theorem complete_unconditional_idempotent_witness:
  "airport_transfer (handleComplete 8 world0) = [transfer7, transfer8]
   \<and> airport_transfer (handleComplete 7 world0) = [transfer7\<lparr> status := ''completed'' \<rparr>, transfer8]
   \<and> airport_transfer (handleComplete 7 (handleComplete 7 world0)) =
       [transfer7\<lparr> status := ''completed'' \<rparr>, transfer8]
   \<and> toasts_of (new_effects (handleComplete 7 world0) (handleComplete 7 (handleComplete 7 world0))) =
         [\<lparr> title = ''Transfer Completed'', description = ''Pesanan sudah Selesai'',
            variant = Some ''success'' \<rparr>]"
  using complete_unconditional_idempotent [of world0 7]
    complete_unconditional_idempotent [of world0 8]
  by (simp add: world0_def transfer7_def transfer8_def)

section \<open>Matching the session email\<close>

lemma like_plain:
  "\<forall>c \<in> set p. c \<noteq> CHR ''%'' \<and> c \<noteq> CHR ''_'' \<and> c \<noteq> CHR 0x5C \<Longrightarrow> like p p"
  by (induction p) simp_all

lemma ilike_ignores_case:
  "map lower a = map lower b \<Longrightarrow>
   \<forall>c \<in> set (map lower a). c \<noteq> CHR ''%'' \<and> c \<noteq> CHR ''_'' \<and> c \<noteq> CHR 0x5C \<Longrightarrow>
   ilike a b"
  using like_plain [of "map lower a"] by (simp add: ilike_def)

text \<open>
  C1 fails where the session email differs from the driver row's in letter case. With
  the row \<open>driver@example.com\<close> and the session \<open>Driver@Example.com\<close> the fetch
  resolves the driver \<open>drv-1\<close> and lists the pending transfer 7; \<open>handleAccept\<close> then
  leaves the entry in memory and the row of the table pending, and its only effect is
  the toast \<open>Driver ID not found.\<close>. With the session email in the row's own case the
  entry in memory and the row are confirmed and assigned to \<open>drv-1\<close>.
\<close>

theorem accept_valid_identity_not_confirmed:
  "driverId (fetchAirportTransfers world_mixed_case) = Some ''drv-1''
   \<and> map (\<lambda>t. (tr_id t, status t)) (transfers (fetchAirportTransfers world_mixed_case))
       = [(7, ''pending'')]
   \<and> map (\<lambda>t. (tr_id t, status t, driver_id t))
        (transfers (handleAccept 7 (fetchAirportTransfers world_mixed_case)))
       = [(7, ''pending'', Some ''drv-1'')]
   \<and> map (\<lambda>t. (tr_id t, status t))
        (airport_transfer (handleAccept 7 (fetchAirportTransfers world_mixed_case)))
       = [(7, ''pending''), (8, ''completed'')]
   \<and> new_effects (fetchAirportTransfers world_mixed_case)
        (handleAccept 7 (fetchAirportTransfers world_mixed_case))
       = [Toast (destructive ''Driver ID not found.'')]
   \<and> map (\<lambda>t. (tr_id t, status t, driver_id t)) (transfers (handleAccept 7 (fetchAirportTransfers world0)))
       = [(7, ''confirmed'', Some ''drv-1'')]
   \<and> map (\<lambda>t. (tr_id t, status t))
        (airport_transfer (handleAccept 7 (fetchAirportTransfers world0)))
       = [(7, ''confirmed''), (8, ''completed'')]"
  by (simp add: world_mixed_case_def world0_def fetchAirportTransfers_def getUser_def
      drivers_ilike_maybeSingle_def ilike_def lower_def select_airport_transfer_def
      setTransfers_def transfer7_def transfer8_def fetchOverdueMessages_frame Let_def
      handleAccept_def drivers_eq_single_def toast_def update_airport_transfer_def
      apply_payload_def new_effects_def)

text \<open>
  C5 fails in \<open>handleAccept\<close>. With the driver row \<open>driver@example.com\<close> and the
  session email \<open>Driver@Example.com\<close>, the fetch resolves the driver \<open>drv-1\<close> through
  \<open>ilike\<close> and lists the transfer, while \<open>handleAccept\<close>, which compares with \<open>eq\<close>,
  finds no driver: it shows \<open>Driver ID not found.\<close> and sends no update. With the
  session email in the row's own case the update is sent.
\<close>

theorem accept_email_match_is_case_sensitive:
  "driverId (fetchAirportTransfers
       (world0\<lparr> session_user := Some \<lparr> email = ''Driver@Example.com'' \<rparr> \<rparr>)) = Some ''drv-1''
   \<and> transfers (fetchAirportTransfers
       (world0\<lparr> session_user := Some \<lparr> email = ''Driver@Example.com'' \<rparr> \<rparr>)) = [transfer7]
   \<and> handleAccept 7 (world0\<lparr> session_user := Some \<lparr> email = ''Driver@Example.com'' \<rparr> \<rparr>) =
       world0\<lparr> session_user := Some \<lparr> email = ''Driver@Example.com'' \<rparr>,
               effects := [Toast (destructive ''Driver ID not found.'')] \<rparr>
   \<and> take 1 (new_effects world0 (handleAccept 7 world0)) =
       [Update 7 \<lparr> payload_status = ''confirmed'', payload_driver_id = Some ''drv-1'' \<rparr>]"
  by (simp add: world0_def fetchAirportTransfers_def getUser_def drivers_ilike_maybeSingle_def
      ilike_def lower_def select_airport_transfer_def setTransfers_def transfer7_def transfer8_def
      fetchOverdueMessages_frame Let_def handleAccept_def drivers_eq_single_def toast_def
      update_airport_transfer_def new_effects_def)

end
